theory Spec2Isabelle
  imports Complex_Main
begin

section \<open>Exceptions and external effects\<close>

text \<open>
  Python exceptions are values. The type \<open>exn\<close> ranges over the subclasses of
  \<^verbatim>\<open>Exception\<close>, which is what every \<^verbatim>\<open>except Exception\<close> handler of the
  source catches. A fallible call returns \<open>exn + 'a\<close>, with \<open>Inl\<close> for the raise.
\<close>

datatype exn =
    RequestError
  | RuntimeError string
  | ZeroDivisionError
  | Exception string

text \<open>A worker thread object (\<^verbatim>\<open>threading.Thread\<close>), identified by its name.\<close>

datatype thread = Thread string

text \<open>
  OS level resources. What their teardown calls do is decided by the environment, so each
  resource carries the outcome of each teardown call: \<open>None\<close> when the call returns,
  \<open>Some e\<close> when it raises \<open>e\<close>.
\<close>

record audio_stream =
  stop_stream_outcome :: "exn option"
  close_outcome :: "exn option"

record pyaudio_handle =
  terminate_outcome :: "exn option"

text \<open>The calls made on external resources, in the order they are made.\<close>

datatype effect =
    ThreadJoin thread
  | CaptureRelease
  | StreamStop
  | StreamClose
  | PyAudioTerminate

section \<open>Configuration (config.py)\<close>

record settings =
  backend_url :: string
  api_key :: string
  model_path :: string
  detection_confidence :: real
  target_classes :: "int list"
  frame_skip :: int
  audio_threshold :: real
  audio_sample_rate :: int
  audio_chunk_size :: int
  default_camera_url :: "string option"

definition default_settings :: settings where
  "default_settings =
     \<lparr>backend_url = ''http://management-server:8080'',
      api_key = ''changeme-api-key'',
      model_path = ''yolov8n.pt'',
      detection_confidence = 0.6,
      target_classes = [0],
      frame_skip = 2,
      audio_threshold = 0.7,
      audio_sample_rate = 44100,
      audio_chunk_size = 1024,
      default_camera_url = None\<rparr>"

section \<open>Audio engine (audio_engine.py)\<close>

record audio_event =
  timestamp :: int
  amplitude :: real
  description :: string
  device_id :: string

text \<open>
  A callback is an arbitrary Python callable: it may change the world \<open>'w\<close> it closes
  over, and it may raise.
\<close>

type_synonym 'w audio_callback = "audio_event \<Rightarrow> 'w \<Rightarrow> (exn + unit) \<times> 'w"

record 'w audio_listener =
  listener_device_id :: string
  device_index :: "int option"
  on_event :: "'w audio_callback option"
  listener_running :: bool
  listener_thread :: "thread option"
  listener_pyaudio :: "pyaudio_handle option"
  listener_stream :: "audio_stream option"
  threshold :: real
  sample_rate :: int
  chunk_size :: int
  last_event_time :: int
  cooldown_ms :: int

text \<open>\<^verbatim>\<open>AudioListener.__init__\<close>\<close>

definition audio_listener_init ::
  "settings \<Rightarrow> string \<Rightarrow> int option \<Rightarrow> 'w audio_callback option \<Rightarrow> 'w audio_listener" where
  "audio_listener_init cfg did idx cb =
     \<lparr>listener_device_id = did,
      device_index = idx,
      on_event = cb,
      listener_running = False,
      listener_thread = None,
      listener_pyaudio = None,
      listener_stream = None,
      threshold = audio_threshold cfg,
      sample_rate = audio_sample_rate cfg,
      chunk_size = audio_chunk_size cfg,
      last_event_time = 0,
      cooldown_ms = 2000\<rparr>"

text \<open>
  \<^verbatim>\<open>AudioListener._handle_detection\<close>. The argument \<open>current_time\<close> is the value of
  \<^verbatim>\<open>int(datetime.now().timestamp() * 1000)\<close> read by this call. The first component
  of the result is the \<^verbatim>\<open>AudioEvent\<close> built on acceptance (\<open>None\<close> on the early
  return); it is handed to \<open>on_event\<close> when a callback is installed, and an exception of
  the callback is logged and swallowed, the callback's changes to the world staying.
\<close>

definition handle_detection ::
  "int \<Rightarrow> real \<Rightarrow> 'w audio_listener \<Rightarrow> 'w \<Rightarrow> audio_event option \<times> 'w audio_listener \<times> 'w" where
  "handle_detection current_time amp l w =
     (if current_time - last_event_time l < cooldown_ms l then (None, l, w)
      else
        let l' = l\<lparr>last_event_time := current_time\<rparr>;
            desc = (if amp \<ge> 0.9 then ''Loud noise detected - possible scream or alarm''
                    else if amp \<ge> 0.8 then ''High amplitude sound detected''
                    else ''Audio threshold exceeded'');
            event = \<lparr>timestamp = current_time, amplitude = amp, description = desc,
                     device_id = listener_device_id l\<rparr>;
            w' = (case on_event l of None \<Rightarrow> w | Some cb \<Rightarrow> snd (cb event w))
        in (Some event, l', w'))"

text \<open>
  One pass of \<^verbatim>\<open>AudioListener._listen_loop\<close> reads a chunk, which either raises or
  yields the normalized RMS amplitude of its samples.
\<close>

datatype chunk = ReadError exn | Chunk real

text \<open>
  \<^verbatim>\<open>AudioListener._listen_loop\<close> over the chunk reads that happen while it runs, each
  paired with the clock reading a detection in that pass would take. An exception inside a
  pass is logged and the loop goes on. The result lists the events built, in order.
\<close>

fun listen_loop ::
  "(int \<times> chunk) list \<Rightarrow> 'w audio_listener \<Rightarrow> 'w \<Rightarrow> audio_event list \<times> 'w audio_listener \<times> 'w" where
  "listen_loop [] l w = ([], l, w)"
| "listen_loop ((now, c) # rest) l w =
     (if \<not> (listener_running l \<and> listener_stream l \<noteq> None) then ([], l, w)
      else case c of
        ReadError e \<Rightarrow> listen_loop rest l w
      | Chunk a \<Rightarrow>
          if a \<ge> threshold l then
            (case handle_detection now a l w of
               (ev, l', w') \<Rightarrow>
                 (case listen_loop rest l' w' of
                    (evs, l'', w'') \<Rightarrow>
                      ((case ev of None \<Rightarrow> [] | Some e \<Rightarrow> [e]) @ evs, l'', w'')))
          else listen_loop rest l w)"

text \<open>A callback that records every event it is given, used to observe emissions.\<close>

definition record_event :: "audio_event list audio_callback" where
  "record_event e w = (Inr (), w @ [e])"

text \<open>A listener in the middle of a run, and a run of chunk reads, for concrete checks.\<close>

definition demo_listener :: "audio_event list audio_listener" where
  "demo_listener =
     (audio_listener_init default_settings ''mic-1'' None (Some record_event))
       \<lparr>listener_running := True,
        listener_stream := Some \<lparr>stop_stream_outcome = None, close_outcome = None\<rparr>\<rparr>"

definition demo_inputs :: "(int \<times> chunk) list" where
  "demo_inputs =
     [(10000, Chunk 0.95), (10500, Chunk 0.99), (11999, Chunk 0.85), (12000, Chunk 0.85),
      (12100, ReadError (Exception ''overflow'')), (12500, Chunk 0.1), (11000, Chunk 0.9),
      (14000, Chunk 0.72)]"

subsection \<open>Listener lifecycle\<close>

text \<open>
  What the platform answers when a handler acquires a resource: whether PyAudio could be
  imported, \<^verbatim>\<open>pyaudio.PyAudio()\<close>, \<^verbatim>\<open>PyAudio.open\<close> (rate, device index, frames per
  buffer) and \<^verbatim>\<open>Thread.start\<close>.
\<close>

record audio_platform =
  pyaudio_available :: bool
  pyaudio_new :: "exn + pyaudio_handle"
  pyaudio_open :: "pyaudio_handle \<Rightarrow> int \<Rightarrow> int option \<Rightarrow> int \<Rightarrow> exn + audio_stream"
  audio_thread_start :: "thread \<Rightarrow> exn option"

text \<open>A call on a resource: its outcome and the trace of the call.\<close>

type_synonym call = "(exn + unit) \<times> effect list"

definition stop_stream :: "audio_stream \<Rightarrow> call" where
  "stop_stream s = ((case stop_stream_outcome s of None \<Rightarrow> Inr () | Some e \<Rightarrow> Inl e), [StreamStop])"

definition close_stream :: "audio_stream \<Rightarrow> call" where
  "close_stream s = ((case close_outcome s of None \<Rightarrow> Inr () | Some e \<Rightarrow> Inl e), [StreamClose])"

definition terminate :: "pyaudio_handle \<Rightarrow> call" where
  "terminate p = ((case terminate_outcome p of None \<Rightarrow> Inr () | Some e \<Rightarrow> Inl e), [PyAudioTerminate])"

text \<open>Statement sequencing: the second call is made only when the first returned.\<close>

definition and_then :: "call \<Rightarrow> call \<Rightarrow> call" where
  "and_then a b = (case a of (Inl e, t) \<Rightarrow> (Inl e, t) | (Inr u, t) \<Rightarrow> (fst b, t @ snd b))"

text \<open>\<^verbatim>\<open>try: ... except Exception: pass\<close>: the calls made stay, the exception does not.\<close>

definition except_pass :: "call \<Rightarrow> effect list" where
  "except_pass a = snd a"

text \<open>\<^verbatim>\<open>AudioListener._cleanup\<close>\<close>

definition cleanup :: "'w audio_listener \<Rightarrow> 'w audio_listener \<times> effect list" where
  "cleanup l =
     (case (case listener_stream l of
              None \<Rightarrow> (l, [])
            | Some s \<Rightarrow> (l\<lparr>listener_stream := None\<rparr>,
                         except_pass (and_then (stop_stream s) (close_stream s)))) of
        (l1, t1) \<Rightarrow>
          (case listener_pyaudio l1 of
             None \<Rightarrow> (l1, t1)
           | Some p \<Rightarrow> (l1\<lparr>listener_pyaudio := None\<rparr>, t1 @ except_pass (terminate p))))"

text \<open>
  \<^verbatim>\<open>AudioListener.start\<close>: the result, the listener afterwards and the teardown calls made
  by the \<^verbatim>\<open>except\<close> branch.
\<close>

definition audio_start ::
  "audio_platform \<Rightarrow> 'w audio_listener \<Rightarrow> bool \<times> 'w audio_listener \<times> effect list" where
  "audio_start pf l =
     (if \<not> pyaudio_available pf then (False, l, [])
      else if listener_running l then (True, l, [])
      else case pyaudio_new pf of
        Inl e \<Rightarrow> (case cleanup l of (l', t) \<Rightarrow> (False, l', t))
      | Inr pa \<Rightarrow>
          let l1 = l\<lparr>listener_pyaudio := Some pa\<rparr> in
          (case pyaudio_open pf pa (sample_rate l1) (device_index l1) (chunk_size l1) of
             Inl e \<Rightarrow> (case cleanup l1 of (l', t) \<Rightarrow> (False, l', t))
           | Inr st \<Rightarrow>
               let th = Thread (''audio-'' @ listener_device_id l1);
                   l2 = l1\<lparr>listener_stream := Some st, listener_running := True,
                           listener_thread := Some th\<rparr>
               in (case audio_thread_start pf th of
                     Some e \<Rightarrow> (case cleanup l2 of (l', t) \<Rightarrow> (False, l', t))
                   | None \<Rightarrow> (True, l2, []))))"

text \<open>
  \<^verbatim>\<open>AudioListener.stop\<close>. \<^verbatim>\<open>Thread.join(timeout=5.0)\<close> returns after at most five
  seconds whether or not the loop has ended; it is a call that returns.
\<close>

definition audio_stop :: "'w audio_listener \<Rightarrow> (exn + unit) \<times> 'w audio_listener \<times> effect list" where
  "audio_stop l =
     (let l1 = l\<lparr>listener_running := False\<rparr> in
      case (case listener_thread l1 of
              None \<Rightarrow> (l1, [])
            | Some th \<Rightarrow> (l1\<lparr>listener_thread := None\<rparr>, [ThreadJoin th])) of
        (l2, t1) \<Rightarrow> (case cleanup l2 of (l3, t2) \<Rightarrow> (Inr (), l3, t1 @ t2)))"

subsection \<open>Registries\<close>

text \<open>
  A registry is a Python \<^verbatim>\<open>dict\<close>: keys are unique and iteration follows insertion
  order, so it is an association list with new keys appended.
\<close>

text \<open>
  The loop \<^verbatim>\<open>for h in registry.values(): h.stop()\<close> of both \<^verbatim>\<open>stop_all\<close> methods.
  Handlers are objects: the ones already stopped stay changed when a later stop raises,
  and the exception leaves the loop.
\<close>

fun stop_each ::
  "('h \<Rightarrow> (exn + unit) \<times> 'h \<times> effect list) \<Rightarrow> (string \<times> 'h) list
     \<Rightarrow> (exn + unit) \<times> (string \<times> 'h) list \<times> effect list" where
  "stop_each stop [] = (Inr (), [], [])"
| "stop_each stop ((k, h) # rest) =
     (case stop h of
        (Inl e, h', t) \<Rightarrow> (Inl e, (k, h') # rest, t)
      | (Inr u, h', t) \<Rightarrow>
          (case stop_each stop rest of (r, rest', t') \<Rightarrow> (r, (k, h') # rest', t @ t')))"

text \<open>
  \<^verbatim>\<open>del registry[key]\<close> and the in-place change of the handler stored under a key.
\<close>

definition del_key :: "string \<Rightarrow> (string \<times> 'h) list \<Rightarrow> (string \<times> 'h) list" where
  "del_key k kvs = filter (\<lambda>kv. fst kv \<noteq> k) kvs"

definition set_key :: "string \<Rightarrow> 'h \<Rightarrow> (string \<times> 'h) list \<Rightarrow> (string \<times> 'h) list" where
  "set_key k v kvs = map (\<lambda>kv. if fst kv = k then (k, v) else kv) kvs"

record 'w audio_engine =
  listeners :: "(string \<times> 'w audio_listener) list"
  event_callback :: "'w audio_callback option"

definition audio_engine_init :: "'w audio_engine" where
  "audio_engine_init = \<lparr>listeners = [], event_callback = None\<rparr>"

definition set_event_callback :: "'w audio_callback \<Rightarrow> 'w audio_engine \<Rightarrow> 'w audio_engine" where
  "set_event_callback cb eng = eng\<lparr>event_callback := Some cb\<rparr>"

definition add_listener ::
  "settings \<Rightarrow> audio_platform \<Rightarrow> string \<Rightarrow> int option \<Rightarrow> 'w audio_engine
     \<Rightarrow> bool \<times> 'w audio_engine \<times> effect list" where
  "add_listener cfg pf did idx eng =
     (if did \<in> set (map fst (listeners eng)) then (False, eng, [])
      else
        let listener = audio_listener_init cfg did idx (event_callback eng) in
        case audio_start pf listener of
          (started, listener', t) \<Rightarrow>
            if started then (True, eng\<lparr>listeners := listeners eng @ [(did, listener')]\<rparr>, t)
            else (False, eng, t))"

definition remove_listener ::
  "string \<Rightarrow> 'w audio_engine \<Rightarrow> (exn + bool) \<times> 'w audio_engine \<times> effect list" where
  "remove_listener did eng =
     (case map_of (listeners eng) did of
        None \<Rightarrow> (Inr False, eng, [])
      | Some l \<Rightarrow>
          (case audio_stop l of
             (Inl e, l', t) \<Rightarrow>
               (Inl e, eng\<lparr>listeners := set_key did l' (listeners eng)\<rparr>, t)
           | (Inr u, l', t) \<Rightarrow>
               (Inr True, eng\<lparr>listeners := del_key did (listeners eng)\<rparr>, t)))"

definition audio_stop_all :: "'w audio_engine \<Rightarrow> (exn + unit) \<times> 'w audio_engine \<times> effect list" where
  "audio_stop_all eng =
     (case stop_each audio_stop (listeners eng) of
        (Inl e, ls, t) \<Rightarrow> (Inl e, eng\<lparr>listeners := ls\<rparr>, t)
      | (Inr u, ls, t) \<Rightarrow> (Inr (), eng\<lparr>listeners := []\<rparr>, t))"

section \<open>Vision engine (vision_engine.py)\<close>

record detection =
  class_id :: int
  class_name :: string
  confidence :: real
  bbox :: "int \<times> int \<times> int \<times> int"
  cropped_image_base64 :: string

text \<open>The video source of a camera: \<^verbatim>\<open>str | int\<close>.\<close>

datatype source = Path string | DeviceIndex int

text \<open>
  A \<^verbatim>\<open>cv2.VideoCapture\<close>: what \<^verbatim>\<open>isOpened()\<close> answers and what \<^verbatim>\<open>release()\<close>
  does.
\<close>

record video_capture =
  is_opened :: bool
  release_outcome :: "exn option"

definition release :: "video_capture \<Rightarrow> call" where
  "release c = ((case release_outcome c of None \<Rightarrow> Inr () | Some e \<Rightarrow> Inl e), [CaptureRelease])"

text \<open>
  A frame is a height by width array of BGR pixels, held as a list of rows. One box of
  an inference result: \<^verbatim>\<open>box.cls[0]\<close>, \<^verbatim>\<open>box.conf[0]\<close> and \<^verbatim>\<open>box.xyxy[0]\<close>, all
  floating point numbers, read as the reals they denote.
\<close>

type_synonym pixel = "nat \<times> nat \<times> nat"
type_synonym frame = "pixel list list"

record box =
  box_cls :: real
  box_conf :: real
  box_xyxy :: "real \<times> real \<times> real \<times> real"

text \<open>
  The loaded YOLO model: calling it on a frame gives a list of results, each with
  \<^verbatim>\<open>boxes\<close> (possibly \<^verbatim>\<open>None\<close>), or raises; \<^verbatim>\<open>names\<close> maps class ids to names.
\<close>

record yolo_model =
  infer :: "frame \<Rightarrow> exn + box list option list"
  names :: "int \<Rightarrow> string option"

text \<open>
  The image libraries used by \<^verbatim>\<open>_encode_image\<close>: \<^verbatim>\<open>cv2.cvtColor(_, COLOR_BGR2RGB)\<close>,
  \<^verbatim>\<open>Image.fromarray\<close>, \<^verbatim>\<open>Image.save(buffer, format="JPEG", quality=q)\<close> giving the
  buffer's bytes, and \<^verbatim>\<open>base64.b64encode\<close> decoded as text.
\<close>

record 'img codec =
  cvt_color :: "frame \<Rightarrow> exn + frame"
  from_array :: "frame \<Rightarrow> exn + 'img"
  save_jpeg :: "'img \<Rightarrow> nat \<Rightarrow> exn + string"
  b64encode :: "string \<Rightarrow> string"

text \<open>\<^verbatim>\<open>CameraHandler._encode_image\<close>: the body of the \<^verbatim>\<open>try\<close>, then the handler.\<close>

definition encode_image_try :: "'img codec \<Rightarrow> frame \<Rightarrow> exn + string" where
  "encode_image_try cd img =
     (case cvt_color cd img of
        Inl e \<Rightarrow> Inl e
      | Inr rgb_image \<Rightarrow>
          (case from_array cd rgb_image of
             Inl e \<Rightarrow> Inl e
           | Inr pil_image \<Rightarrow>
               (case save_jpeg cd pil_image 85 of
                  Inl e \<Rightarrow> Inl e
                | Inr buffer \<Rightarrow> Inr (b64encode cd buffer))))"

definition encode_image :: "'img codec \<Rightarrow> frame \<Rightarrow> exn + string" where
  "encode_image cd img =
     (case encode_image_try cd img of
        Inr s \<Rightarrow> Inr s
      | Inl e \<Rightarrow> Inr [])"

text \<open>Python's \<^verbatim>\<open>int(x)\<close> on a finite float: truncation toward zero.\<close>

definition py_int :: "real \<Rightarrow> int" where
  "py_int x = (if x < 0 then \<lceil>x\<rceil> else \<lfloor>x\<rfloor>)"

text \<open>
  A slice \<^verbatim>\<open>xs[a:b]\<close> of Python and NumPy: a negative bound counts from the end, and
  every bound is then cut to the range \<open>0..len\<close>.
\<close>

definition slice_bound :: "nat \<Rightarrow> int \<Rightarrow> nat" where
  "slice_bound n i = (if i < 0 then nat (max (i + int n) 0) else min (nat i) n)"

definition py_slice :: "int \<Rightarrow> int \<Rightarrow> 'a list \<Rightarrow> 'a list" where
  "py_slice a b xs =
     (let lo = slice_bound (length xs) a; hi = slice_bound (length xs) b
      in take (hi - lo) (drop lo xs))"

text \<open>\<^verbatim>\<open>frame[y1:y2, x1:x2]\<close>\<close>

definition crop_frame :: "frame \<Rightarrow> int \<Rightarrow> int \<Rightarrow> int \<Rightarrow> int \<Rightarrow> frame" where
  "crop_frame fr y1 y2 x1 x2 = map (py_slice x1 x2) (py_slice y1 y2 fr)"

text \<open>\<^verbatim>\<open>x1, y1, x2, y2 = map(int, box.xyxy[0].tolist())\<close>\<close>

definition crop_coords :: "box \<Rightarrow> int \<times> int \<times> int \<times> int" where
  "crop_coords b = (case box_xyxy b of (fx1, fy1, fx2, fy2) \<Rightarrow>
     (py_int fx1, py_int fy1, py_int fx2, py_int fy2))"

type_synonym 'w detection_callback = "string \<Rightarrow> detection \<Rightarrow> 'w \<Rightarrow> (exn + unit) \<times> 'w"

text \<open>
  \<^verbatim>\<open>CameraHandler\<close>. The frame queue of the source is never read or written and is left
  out.
\<close>

record 'w camera_handler =
  camera_id :: string
  source :: source
  on_detection :: "'w detection_callback option"
  capture :: "video_capture option"
  camera_running :: bool
  camera_thread :: "thread option"
  frame_count :: int
  model :: "yolo_model option"

definition camera_handler_init ::
  "string \<Rightarrow> source \<Rightarrow> 'w detection_callback option \<Rightarrow> 'w camera_handler" where
  "camera_handler_init cid src cb =
     \<lparr>camera_id = cid, source = src, on_detection = cb, capture = None,
      camera_running = False, camera_thread = None, frame_count = 0, model = None\<rparr>"

text \<open>
  What the platform answers to a camera handler: \<^verbatim>\<open>cv2.VideoCapture(source)\<close>,
  \<^verbatim>\<open>Thread.start\<close> and \<^verbatim>\<open>YOLO(model_path)\<close>.
\<close>

record vision_platform =
  open_capture :: "source \<Rightarrow> exn + video_capture"
  camera_thread_start :: "thread \<Rightarrow> exn option"
  load_model :: "string \<Rightarrow> exn + yolo_model"

text \<open>\<^verbatim>\<open>CameraHandler._get_model\<close>\<close>

definition get_model ::
  "vision_platform \<Rightarrow> settings \<Rightarrow> 'w camera_handler \<Rightarrow> (exn + yolo_model) \<times> 'w camera_handler" where
  "get_model pf cfg h =
     (case model h of
        Some m \<Rightarrow> (Inr m, h)
      | None \<Rightarrow>
          (case load_model pf (model_path cfg) of
             Inl e \<Rightarrow> (Inl e, h)
           | Inr m \<Rightarrow> (Inr m, h\<lparr>model := Some m\<rparr>)))"

text \<open>\<^verbatim>\<open>CameraHandler.start\<close>\<close>

definition camera_start ::
  "vision_platform \<Rightarrow> 'w camera_handler \<Rightarrow> bool \<times> 'w camera_handler" where
  "camera_start pf h =
     (if camera_running h then (True, h)
      else case open_capture pf (source h) of
        Inl e \<Rightarrow> (False, h)
      | Inr c \<Rightarrow>
          let h1 = h\<lparr>capture := Some c\<rparr> in
          if \<not> is_opened c then (False, h1)
          else
            let th = Thread (''camera-'' @ camera_id h1);
                h2 = h1\<lparr>camera_running := True, camera_thread := Some th\<rparr>
            in (case camera_thread_start pf th of
                  Some e \<Rightarrow> (False, h2)
                | None \<Rightarrow> (True, h2)))"

text \<open>
  \<^verbatim>\<open>CameraHandler.stop\<close>. The call of \<^verbatim>\<open>release()\<close> stands outside any \<^verbatim>\<open>try\<close>:
  when it raises, the exception leaves \<^verbatim>\<open>stop\<close> and the capture stays assigned.
\<close>

definition camera_stop :: "'w camera_handler \<Rightarrow> (exn + unit) \<times> 'w camera_handler \<times> effect list" where
  "camera_stop h =
     (let h1 = h\<lparr>camera_running := False\<rparr> in
      case (case camera_thread h1 of
              None \<Rightarrow> (h1, [])
            | Some th \<Rightarrow> (h1\<lparr>camera_thread := None\<rparr>, [ThreadJoin th])) of
        (h2, t1) \<Rightarrow>
          (case capture h2 of
             None \<Rightarrow> (Inr (), h2, t1)
           | Some c \<Rightarrow>
               (case release c of
                  (Inl e, t2) \<Rightarrow> (Inl e, h2, t1 @ t2)
                | (Inr u, t2) \<Rightarrow> (Inr (), h2\<lparr>capture := None\<rparr>, t1 @ t2))))"


subsection \<open>Frame processing\<close>

text \<open>
  The body of the inner loop of \<^verbatim>\<open>CameraHandler._process_frame\<close> for one box: the
  detection built for a qualifying box (\<open>None\<close> for a box that does not qualify) and
  the world after the callback. An exception of the callback is logged and swallowed.
\<close>

definition process_box ::
  "settings \<Rightarrow> 'img codec \<Rightarrow> yolo_model \<Rightarrow> 'w camera_handler \<Rightarrow> frame \<Rightarrow> box \<Rightarrow> 'w
     \<Rightarrow> (exn + detection option) \<times> 'w" where
  "process_box cfg cd m h fr b w =
     (let cid = py_int (box_cls b); conf = box_conf b in
      if cid \<in> set (target_classes cfg) \<and> conf \<ge> detection_confidence cfg then
        (case crop_coords b of
           (x1, y1, x2, y2) \<Rightarrow>
             let cropped = crop_frame fr y1 y2 x1 x2 in
             (case encode_image cd cropped of
                Inl e \<Rightarrow> (Inl e, w)
              | Inr image_base64 \<Rightarrow>
                  let cname = (case names m cid of None \<Rightarrow> ''unknown'' | Some n \<Rightarrow> n);
                      d = \<lparr>class_id = cid, class_name = cname, confidence = conf,
                           bbox = (x1, y1, x2, y2), cropped_image_base64 = image_base64\<rparr>;
                      w' = (case on_detection h of
                              None \<Rightarrow> w
                            | Some cb \<Rightarrow> snd (cb (camera_id h) d w))
                  in (Inr (Some d), w')))
      else (Inr None, w))"

text \<open>\<^verbatim>\<open>for i, box in enumerate(boxes)\<close>: the detections built, in order.\<close>

fun process_boxes ::
  "settings \<Rightarrow> 'img codec \<Rightarrow> yolo_model \<Rightarrow> 'w camera_handler \<Rightarrow> frame \<Rightarrow> box list \<Rightarrow> 'w
     \<Rightarrow> (exn + unit) \<times> detection list \<times> 'w" where
  "process_boxes cfg cd m h fr [] w = (Inr (), [], w)"
| "process_boxes cfg cd m h fr (b # bs) w =
     (case process_box cfg cd m h fr b w of
        (Inl e, w1) \<Rightarrow> (Inl e, [], w1)
      | (Inr d, w1) \<Rightarrow>
          (case process_boxes cfg cd m h fr bs w1 of
             (r, ds, w2) \<Rightarrow> (r, (case d of None \<Rightarrow> [] | Some x \<Rightarrow> [x]) @ ds, w2)))"

text \<open>\<^verbatim>\<open>for result in results\<close>, skipping a result whose boxes are \<^verbatim>\<open>None\<close>.\<close>

fun process_results ::
  "settings \<Rightarrow> 'img codec \<Rightarrow> yolo_model \<Rightarrow> 'w camera_handler \<Rightarrow> frame \<Rightarrow> box list option list
     \<Rightarrow> 'w \<Rightarrow> (exn + unit) \<times> detection list \<times> 'w" where
  "process_results cfg cd m h fr [] w = (Inr (), [], w)"
| "process_results cfg cd m h fr (None # rs) w = process_results cfg cd m h fr rs w"
| "process_results cfg cd m h fr (Some boxes # rs) w =
     (case process_boxes cfg cd m h fr boxes w of
        (Inl e, ds, w1) \<Rightarrow> (Inl e, ds, w1)
      | (Inr u, ds, w1) \<Rightarrow>
          (case process_results cfg cd m h fr rs w1 of
             (r, ds', w2) \<Rightarrow> (r, ds @ ds', w2)))"

text \<open>\<^verbatim>\<open>CameraHandler._process_frame\<close>\<close>

definition process_frame ::
  "settings \<Rightarrow> 'img codec \<Rightarrow> yolo_model \<Rightarrow> 'w camera_handler \<Rightarrow> frame \<Rightarrow> 'w
     \<Rightarrow> (exn + unit) \<times> detection list \<times> 'w" where
  "process_frame cfg cd m h fr w =
     (case infer m fr of
        Inl e \<Rightarrow> (Inl e, [], w)
      | Inr results \<Rightarrow> process_results cfg cd m h fr results w)"

subsection \<open>Capture loop\<close>

text \<open>
  The \<^verbatim>\<open>while\<close> loop of \<^verbatim>\<open>CameraHandler._capture_loop\<close> over the reads that happen
  while it runs; a read is \<open>Some frame\<close> when \<^verbatim>\<open>ret\<close> is true and \<open>None\<close> when it is
  false. The result holds what the loop raised (the remainder by a zero \<open>frame_skip\<close> is
  taken outside the \<^verbatim>\<open>try\<close>), the handler, the frames handed to \<^verbatim>\<open>_process_frame\<close>
  and so to inference, the detections built, and the world. An exception of
  \<^verbatim>\<open>_process_frame\<close> is logged and the loop goes on.
\<close>

fun capture_frames ::
  "settings \<Rightarrow> 'img codec \<Rightarrow> yolo_model \<Rightarrow> frame option list \<Rightarrow> 'w camera_handler \<Rightarrow> 'w
     \<Rightarrow> (exn + unit) \<times> 'w camera_handler \<times> frame list \<times> detection list \<times> 'w" where
  "capture_frames cfg cd m [] h w = (Inr (), h, [], [], w)"
| "capture_frames cfg cd m (rd # rest) h w =
     (if \<not> (camera_running h \<and> (case capture h of None \<Rightarrow> False | Some c \<Rightarrow> is_opened c))
      then (Inr (), h, [], [], w)
      else case rd of
        None \<Rightarrow> capture_frames cfg cd m rest h w
      | Some fr \<Rightarrow>
          let h1 = h\<lparr>frame_count := frame_count h + 1\<rparr> in
          if frame_skip cfg = 0 then (Inl ZeroDivisionError, h1, [], [], w)
          else if frame_count h1 mod frame_skip cfg \<noteq> 0 then capture_frames cfg cd m rest h1 w
          else
            (case process_frame cfg cd m h1 fr w of
               (r, ds, w1) \<Rightarrow>
                 (case capture_frames cfg cd m rest h1 w1 of
                    (res, h2, frs, ds', w2) \<Rightarrow> (res, h2, fr # frs, ds @ ds', w2))))"

text \<open>\<^verbatim>\<open>CameraHandler._capture_loop\<close>: the lazy model load, then the loop.\<close>

definition capture_loop ::
  "vision_platform \<Rightarrow> settings \<Rightarrow> 'img codec \<Rightarrow> frame option list \<Rightarrow> 'w camera_handler \<Rightarrow> 'w
     \<Rightarrow> (exn + unit) \<times> 'w camera_handler \<times> frame list \<times> detection list \<times> 'w" where
  "capture_loop pf cfg cd reads h w =
     (case get_model pf cfg h of
        (Inl e, h') \<Rightarrow> (Inl e, h', [], [], w)
      | (Inr m, h') \<Rightarrow> capture_frames cfg cd m reads h' w)"

subsection \<open>Camera registry\<close>

record 'w vision_engine =
  cameras :: "(string \<times> 'w camera_handler) list"
  detection_callback :: "'w detection_callback option"

definition vision_engine_init :: "'w vision_engine" where
  "vision_engine_init = \<lparr>cameras = [], detection_callback = None\<rparr>"

definition set_detection_callback ::
  "'w detection_callback \<Rightarrow> 'w vision_engine \<Rightarrow> 'w vision_engine" where
  "set_detection_callback cb eng = eng\<lparr>detection_callback := Some cb\<rparr>"

definition add_camera ::
  "vision_platform \<Rightarrow> string \<Rightarrow> source \<Rightarrow> 'w vision_engine \<Rightarrow> bool \<times> 'w vision_engine" where
  "add_camera pf cid src eng =
     (if cid \<in> set (map fst (cameras eng)) then (False, eng)
      else
        let handler = camera_handler_init cid src (detection_callback eng) in
        case camera_start pf handler of
          (started, handler') \<Rightarrow>
            if started then (True, eng\<lparr>cameras := cameras eng @ [(cid, handler')]\<rparr>)
            else (False, eng))"

definition remove_camera ::
  "string \<Rightarrow> 'w vision_engine \<Rightarrow> (exn + bool) \<times> 'w vision_engine \<times> effect list" where
  "remove_camera cid eng =
     (case map_of (cameras eng) cid of
        None \<Rightarrow> (Inr False, eng, [])
      | Some h \<Rightarrow>
          (case camera_stop h of
             (Inl e, h', t) \<Rightarrow> (Inl e, eng\<lparr>cameras := set_key cid h' (cameras eng)\<rparr>, t)
           | (Inr u, h', t) \<Rightarrow> (Inr True, eng\<lparr>cameras := del_key cid (cameras eng)\<rparr>, t)))"

definition get_camera_status :: "string \<Rightarrow> 'w vision_engine \<Rightarrow> (string \<times> source \<times> bool) option" where
  "get_camera_status cid eng =
     (case map_of (cameras eng) cid of
        None \<Rightarrow> None
      | Some h \<Rightarrow> Some (cid, source h, camera_running h))"

definition get_all_cameras :: "'w vision_engine \<Rightarrow> (string \<times> source \<times> bool) option list" where
  "get_all_cameras eng = map (\<lambda>kv. get_camera_status (fst kv) eng) (cameras eng)"

definition vision_stop_all :: "'w vision_engine \<Rightarrow> (exn + unit) \<times> 'w vision_engine \<times> effect list" where
  "vision_stop_all eng =
     (case stop_each camera_stop (cameras eng) of
        (Inl e, cs, t) \<Rightarrow> (Inl e, eng\<lparr>cameras := cs\<rparr>, t)
      | (Inr u, cs, t) \<Rightarrow> (Inr (), eng\<lparr>cameras := []\<rparr>, t))"

section \<open>Service connector (service_connector.py)\<close>

text \<open>The JSON body of an alert.\<close>

record alert_payload =
  cameraId :: string
  alertType :: string
  alert_description :: string
  imageBase64 :: string
  alert_timestamp :: int

text \<open>The shared \<^verbatim>\<open>httpx.AsyncClient\<close>: its timeout in seconds and its headers.\<close>

record http_client =
  client_timeout :: nat
  client_headers :: "(string \<times> string) list"

record service_connector =
  connector_backend_url :: string
  connector_api_key :: string
  client :: "http_client option"

definition service_connector_init :: "settings \<Rightarrow> service_connector" where
  "service_connector_init cfg =
     \<lparr>connector_backend_url = backend_url cfg, connector_api_key = api_key cfg, client = None\<rparr>"

text \<open>
  The network as the connector meets it: whether constructing the client raises, and what
  a POST (client, URL, JSON body) and a GET (client, URL) give: the status code of the
  response, or an exception.
\<close>

record network =
  client_new :: "http_client \<Rightarrow> exn + http_client"
  http_post :: "http_client \<Rightarrow> string \<Rightarrow> alert_payload \<Rightarrow> exn + nat"
  http_get :: "http_client \<Rightarrow> string \<Rightarrow> exn + nat"

text \<open>\<^verbatim>\<open>ServiceConnector._get_client\<close>\<close>

definition get_client ::
  "network \<Rightarrow> service_connector \<Rightarrow> (exn + http_client) \<times> service_connector" where
  "get_client net sc =
     (case client sc of
        Some c \<Rightarrow> (Inr c, sc)
      | None \<Rightarrow>
          (case client_new net
                  \<lparr>client_timeout = 30,
                   client_headers = [(''Content-Type'', ''application/json''),
                                     (''X-API-KEY'', connector_api_key sc)]\<rparr> of
             Inl e \<Rightarrow> (Inl e, sc)
           | Inr c \<Rightarrow> (Inr c, sc\<lparr>client := Some c\<rparr>)))"

text \<open>
  The payload built by \<^verbatim>\<open>send_alert\<close> before its \<^verbatim>\<open>try\<close>; \<open>now\<close> is the value of
  \<^verbatim>\<open>int(datetime.now().timestamp() * 1000)\<close> at the call.
\<close>

definition build_payload ::
  "int \<Rightarrow> string \<Rightarrow> string \<Rightarrow> string \<Rightarrow> string \<Rightarrow> int option \<Rightarrow> alert_payload" where
  "build_payload now camera alert_type desc image_base64 ts =
     (let ts' = (case ts of None \<Rightarrow> now | Some t \<Rightarrow> t) in
      \<lparr>cameraId = camera, alertType = alert_type, alert_description = desc,
       imageBase64 = image_base64, alert_timestamp = ts'\<rparr>)"

text \<open>The body of the \<^verbatim>\<open>try\<close> of \<^verbatim>\<open>send_alert\<close>.\<close>

definition send_alert_try ::
  "network \<Rightarrow> service_connector \<Rightarrow> alert_payload \<Rightarrow> (exn + bool) \<times> service_connector" where
  "send_alert_try net sc payload =
     (case get_client net sc of
        (Inl e, sc') \<Rightarrow> (Inl e, sc')
      | (Inr c, sc') \<Rightarrow>
          (case http_post net c (connector_backend_url sc' @ ''/api/v1/alerts'') payload of
             Inl e \<Rightarrow> (Inl e, sc')
           | Inr status_code \<Rightarrow>
               if status_code \<in> set [200, 201] then (Inr True, sc') else (Inr False, sc')))"

text \<open>
  \<^verbatim>\<open>ServiceConnector.send_alert\<close>: the two handlers, for \<^verbatim>\<open>httpx.RequestError\<close> and
  for \<^verbatim>\<open>Exception\<close>, differ in what they log only.
\<close>

definition send_alert ::
  "network \<Rightarrow> int \<Rightarrow> string \<Rightarrow> string \<Rightarrow> string \<Rightarrow> string \<Rightarrow> int option \<Rightarrow> service_connector
     \<Rightarrow> (exn + bool) \<times> service_connector" where
  "send_alert net now camera alert_type desc image_base64 ts sc =
     (let payload = build_payload now camera alert_type desc image_base64 ts in
      case send_alert_try net sc payload of
        (Inr b, sc') \<Rightarrow> (Inr b, sc')
      | (Inl RequestError, sc') \<Rightarrow> (Inr False, sc')
      | (Inl e, sc') \<Rightarrow> (Inr False, sc'))"

text \<open>\<^verbatim>\<open>ServiceConnector.health_check\<close>\<close>

definition health_check :: "network \<Rightarrow> service_connector \<Rightarrow> (exn + bool) \<times> service_connector" where
  "health_check net sc =
     (case get_client net sc of
        (Inl e, sc') \<Rightarrow> (Inr False, sc')
      | (Inr c, sc') \<Rightarrow>
          (case http_get net c (connector_backend_url sc' @ ''/actuator/health'') of
             Inl e \<Rightarrow> (Inr False, sc')
           | Inr status_code \<Rightarrow> (Inr (status_code = 200), sc')))"

section \<open>Dispatch (main.py)\<close>

text \<open>Python's \<^verbatim>\<open>str.capitalize\<close> on ASCII text.\<close>

definition upper_char :: "char \<Rightarrow> char" where
  "upper_char c = (let n = (of_char c :: nat) in if 97 \<le> n \<and> n \<le> 122 then char_of (n - 32) else c)"

definition lower_char :: "char \<Rightarrow> char" where
  "lower_char c = (let n = (of_char c :: nat) in if 65 \<le> n \<and> n \<le> 90 then char_of (n + 32) else c)"

definition capitalize :: "string \<Rightarrow> string" where
  "capitalize s = (case s of [] \<Rightarrow> [] | c # cs \<Rightarrow> upper_char c # map lower_char cs)"

text \<open>
  \<^verbatim>\<open>handle_visual_detection\<close> and \<^verbatim>\<open>handle_audio_event\<close>, the coroutines that deliver an
  alert. \<open>percent\<close> is the float formatting \<^verbatim>\<open>{confidence:.1%}\<close>.
\<close>

definition handle_visual_detection ::
  "(real \<Rightarrow> string) \<Rightarrow> network \<Rightarrow> int \<Rightarrow> string \<Rightarrow> detection \<Rightarrow> service_connector
     \<Rightarrow> (exn + bool) \<times> service_connector" where
  "handle_visual_detection percent net now cid d sc =
     (let desc = capitalize (class_name d) @ '' detected with '' @ percent (confidence d)
                   @ '' confidence''
      in send_alert net now cid ''VISUAL'' desc (cropped_image_base64 d) None sc)"

definition handle_audio_event ::
  "network \<Rightarrow> int \<Rightarrow> audio_event \<Rightarrow> service_connector \<Rightarrow> (exn + bool) \<times> service_connector" where
  "handle_audio_event net now ev sc =
     send_alert net now (device_id ev) ''AUDIO'' (description ev) [] (Some (timestamp ev)) sc"

text \<open>A coroutine object waiting to run: the coroutine function and its arguments.\<close>

datatype coroutine =
    HandleVisualDetection string detection
  | HandleAudioEvent audio_event

text \<open>
  The async side of the process as a callback meets it: the thread the caller runs on,
  the thread on which the event loop runs, and the tasks scheduled on the loop.
\<close>

record async_world =
  current_thread :: string
  loop_thread :: string
  scheduled :: "coroutine list"

text \<open>
  \<^verbatim>\<open>asyncio.create_task(coro)\<close> of the standard library schedules the coroutine on the
  running loop of the current thread, and raises \<^verbatim>\<open>RuntimeError\<close> when the current
  thread has no running loop.
\<close>

definition create_task :: "coroutine \<Rightarrow> async_world \<Rightarrow> (exn + unit) \<times> async_world" where
  "create_task coro w =
     (if current_thread w = loop_thread w then (Inr (), w\<lparr>scheduled := scheduled w @ [coro]\<rparr>)
      else (Inl (RuntimeError ''no running event loop''), w))"

definition sync_visual_callback :: "async_world detection_callback" where
  "sync_visual_callback cid d w = create_task (HandleVisualDetection cid d) w"

definition sync_audio_callback :: "async_world audio_callback" where
  "sync_audio_callback ev w = create_task (HandleAudioEvent ev) w"

text \<open>
  The target of a handler's worker thread runs on that thread, a thread of its own made by
  \<^verbatim>\<open>threading.Thread\<close>: during the run the current thread is the worker.
\<close>

definition on_thread :: "thread \<Rightarrow> async_world \<Rightarrow> async_world" where
  "on_thread th w = (case th of Thread name \<Rightarrow> w\<lparr>current_thread := name\<rparr>)"

definition run_capture_thread ::
  "vision_platform \<Rightarrow> settings \<Rightarrow> 'img codec \<Rightarrow> frame option list \<Rightarrow> async_world camera_handler
     \<Rightarrow> async_world
     \<Rightarrow> ((exn + unit) \<times> async_world camera_handler \<times> frame list \<times> detection list \<times> async_world) option" where
  "run_capture_thread pf cfg cd reads h w =
     (case camera_thread h of
        None \<Rightarrow> None
      | Some th \<Rightarrow>
          (case capture_loop pf cfg cd reads h (on_thread th w) of
             (r, h', frs, ds, w') \<Rightarrow>
               Some (r, h', frs, ds, w'\<lparr>current_thread := current_thread w\<rparr>)))"

definition run_listen_thread ::
  "(int \<times> chunk) list \<Rightarrow> async_world audio_listener \<Rightarrow> async_world
     \<Rightarrow> (audio_event list \<times> async_world audio_listener \<times> async_world) option" where
  "run_listen_thread inputs l w =
     (case listener_thread l of
        None \<Rightarrow> None
      | Some th \<Rightarrow>
          (case listen_loop inputs l (on_thread th w) of
             (evs, l', w') \<Rightarrow> Some (evs, l', w'\<lparr>current_thread := current_thread w\<rparr>)))"

text \<open>
  The start of \<^verbatim>\<open>lifespan\<close>: both callbacks are installed, then the default camera is
  added when one is configured. It runs on the event loop's thread.
\<close>

definition lifespan_startup ::
  "vision_platform \<Rightarrow> settings \<Rightarrow> async_world vision_engine \<Rightarrow> async_world audio_engine
     \<Rightarrow> async_world vision_engine \<times> async_world audio_engine" where
  "lifespan_startup pf cfg ve ae =
     (let ve1 = set_detection_callback sync_visual_callback ve;
          ae1 = set_event_callback sync_audio_callback ae;
          ve2 = (case default_camera_url cfg of
                   None \<Rightarrow> ve1
                 | Some url \<Rightarrow> if url = [] then ve1 else snd (add_camera pf ''default'' (Path url) ve1))
      in (ve2, ae1))"

section \<open>Reference notions and concrete instances\<close>

text \<open>
  The frames the frame-skip rule selects, in the words of the specification: counting the
  frames read from \<open>c + 1\<close> on, those whose count is a multiple of \<open>skip\<close>.
\<close>

definition frames_due :: "int \<Rightarrow> int \<Rightarrow> 'a list \<Rightarrow> 'a list" where
  "frames_due skip c frames =
     map snd (filter (\<lambda>kf. fst kf mod skip = 0) (zip [c + 1 .. c + int (length frames)] frames))"

text \<open>The frames of the reads that succeeded.\<close>

definition successful_reads :: "frame option list \<Rightarrow> frame list" where
  "successful_reads reads = concat (map (\<lambda>rd. case rd of None \<Rightarrow> [] | Some fr \<Rightarrow> [fr]) reads)"

text \<open>
  Crop coordinates within the pixel range of a frame, in the words of the specification.
\<close>

definition frame_height :: "frame \<Rightarrow> nat" where
  "frame_height fr = length fr"

definition frame_width :: "frame \<Rightarrow> nat" where
  "frame_width fr = (case fr of [] \<Rightarrow> 0 | row # rows \<Rightarrow> length row)"

definition coords_in_frame :: "frame \<Rightarrow> int \<times> int \<times> int \<times> int \<Rightarrow> bool" where
  "coords_in_frame fr xyxy = (case xyxy of (x1, y1, x2, y2) \<Rightarrow>
     0 \<le> x1 \<and> x1 \<le> x2 \<and> x2 \<le> int (frame_width fr)
     \<and> 0 \<le> y1 \<and> y1 \<le> y2 \<and> y2 \<le> int (frame_height fr))"

text \<open>
  A platform on which every acquisition succeeds, a model that reports the boxes it is
  built with, an image library that works on crops with at least one pixel and fails on
  empty ones, and a callback that records what it is given.
\<close>

definition demo_model :: "box list \<Rightarrow> yolo_model" where
  "demo_model boxes =
     \<lparr>infer = (\<lambda>fr. Inr [Some boxes]),
      names = (\<lambda>k. if k = 0 then Some ''person'' else None)\<rparr>"

definition demo_codec :: "frame codec" where
  "demo_codec =
     \<lparr>cvt_color = (\<lambda>fr. if concat fr = [] then Inl (Exception ''cv2.error'')
                          else Inr (map (map (\<lambda>p. case p of (b, g, r) \<Rightarrow> (r, g, b))) fr)),
      from_array = (\<lambda>fr. Inr fr),
      save_jpeg = (\<lambda>img q. Inr (''jpeg'' @ replicate (length (concat img)) CHR ''x'')),
      b64encode = (\<lambda>bytes. ''b64:'' @ bytes)\<rparr>"

definition demo_vision_platform :: "box list \<Rightarrow> vision_platform" where
  "demo_vision_platform boxes =
     \<lparr>open_capture = (\<lambda>src. Inr \<lparr>is_opened = True, release_outcome = None\<rparr>),
      camera_thread_start = (\<lambda>th. None),
      load_model = (\<lambda>path. Inr (demo_model boxes))\<rparr>"

definition record_detection :: "(string \<times> detection) list detection_callback" where
  "record_detection cid d w = (Inr (), w @ [(cid, d)])"

definition demo_camera :: "(string \<times> detection) list camera_handler" where
  "demo_camera =
     snd (camera_start (demo_vision_platform [])
            (camera_handler_init ''cam-1'' (Path ''rtsp://cam-1'') (Some record_detection)))"

definition demo_frame :: "nat \<Rightarrow> frame" where
  "demo_frame k = [[(k, 0, 0), (k, 1, 0), (k, 2, 0)], [(k, 0, 1), (k, 1, 1), (k, 2, 1)]]"

definition demo_reads :: "frame option list" where
  "demo_reads =
     [Some (demo_frame 1), None, Some (demo_frame 2), Some (demo_frame 3), None,
      Some (demo_frame 4), Some (demo_frame 5)]"

text \<open>
  Boxes on the 2 by 3 demo frame: one reaching beyond the frame on three sides, one too
  faint to qualify, one inside the frame, and one whose right edge is left of its left
  edge; the detections built from the first and the last; and some backends.
\<close>

definition wide_box :: box where
  "wide_box = \<lparr>box_cls = 0, box_conf = 0.9, box_xyxy = (-1.5, 0.2, 7.9, 5)\<rparr>"

definition inner_box :: box where
  "inner_box = \<lparr>box_cls = 0, box_conf = 0.75, box_xyxy = (1.2, 0, 2.9, 1.7)\<rparr>"

definition faint_box :: box where
  "faint_box = \<lparr>box_cls = 0, box_conf = 0.3, box_xyxy = (0, 0, 1, 1)\<rparr>"

definition empty_box :: box where
  "empty_box = \<lparr>box_cls = 0, box_conf = 0.8, box_xyxy = (2, 0, 1, 2)\<rparr>"

definition demo_boxes :: "box list" where
  "demo_boxes = [wide_box, faint_box, inner_box, empty_box]"

definition wide_detection :: detection where
  "wide_detection =
     \<lparr>class_id = 0, class_name = ''person'', confidence = 0.9, bbox = (-1, 0, 7, 5),
      cropped_image_base64 = ''b64:jpegxx''\<rparr>"

definition empty_detection :: detection where
  "empty_detection =
     \<lparr>class_id = 0, class_name = ''person'', confidence = 0.8, bbox = (2, 0, 1, 2),
      cropped_image_base64 = []\<rparr>"

definition demo_network :: "nat \<Rightarrow> network" where
  "demo_network status =
     \<lparr>client_new = (\<lambda>c. Inr c),
      http_post = (\<lambda>c url p. Inr status),
      http_get = (\<lambda>c url. Inr status)\<rparr>"

definition down_network :: network where
  "down_network =
     \<lparr>client_new = (\<lambda>c. Inr c),
      http_post = (\<lambda>c url p. Inl RequestError),
      http_get = (\<lambda>c url. Inl RequestError)\<rparr>"

definition broken_network :: network where
  "broken_network =
     \<lparr>client_new = (\<lambda>c. Inl (Exception ''ssl'')),
      http_post = (\<lambda>c url p. Inr 200),
      http_get = (\<lambda>c url. Inr 200)\<rparr>"

definition expecting_network :: "string \<Rightarrow> alert_payload \<Rightarrow> network" where
  "expecting_network url0 p0 =
     \<lparr>client_new = (\<lambda>c. Inr c),
      http_post = (\<lambda>c url p. if url = url0 \<and> p = p0 then Inr 201 else Inr 400),
      http_get = (\<lambda>c url. Inr 200)\<rparr>"

definition demo_connector :: service_connector where
  "demo_connector = service_connector_init default_settings"


text \<open>
  Platforms on which a capture does not open, on which releasing a capture raises, on
  which tearing down the audio stream and PyAudio raises, and on which opening the audio
  stream raises; registries and handlers built on them through the code; the process
  after startup with a default camera configured, with its event loop on the main thread.
\<close>

definition demo_percent :: "real \<Rightarrow> string" where
  "demo_percent x = (if x = 0.8 then ''80.0%'' else ''?'')"

definition empty_image_payload :: alert_payload where
  "empty_image_payload =
     \<lparr>cameraId = ''cam-1'', alertType = ''VISUAL'',
      alert_description = ''Person detected with 80.0% confidence'',
      imageBase64 = [], alert_timestamp = 5000\<rparr>"

definition closed_platform :: vision_platform where
  "closed_platform =
     \<lparr>open_capture = (\<lambda>src. Inr \<lparr>is_opened = False, release_outcome = None\<rparr>),
      camera_thread_start = (\<lambda>th. None),
      load_model = (\<lambda>path. Inr (demo_model []))\<rparr>"

definition stuck_platform :: vision_platform where
  "stuck_platform =
     \<lparr>open_capture = (\<lambda>src. Inr \<lparr>is_opened = True,
                                      release_outcome = Some (Exception ''cv2.error'')\<rparr>),
      camera_thread_start = (\<lambda>th. None),
      load_model = (\<lambda>path. Inr (demo_model []))\<rparr>"

definition demo_audio_platform :: audio_platform where
  "demo_audio_platform =
     \<lparr>pyaudio_available = True,
      pyaudio_new = Inr \<lparr>terminate_outcome = Some (Exception ''PortAudio'')\<rparr>,
      pyaudio_open = (\<lambda>pa rate idx chunk.
         Inr \<lparr>stop_stream_outcome = Some (Exception ''OSError''), close_outcome = None\<rparr>),
      audio_thread_start = (\<lambda>th. None)\<rparr>"

definition busy_audio_platform :: audio_platform where
  "busy_audio_platform =
     \<lparr>pyaudio_available = True,
      pyaudio_new = Inr \<lparr>terminate_outcome = None\<rparr>,
      pyaudio_open = (\<lambda>pa rate idx chunk. Inl (Exception ''OSError'')),
      audio_thread_start = (\<lambda>th. None)\<rparr>"

definition one_camera :: "(string \<times> detection) list vision_engine" where
  "one_camera =
     snd (add_camera (demo_vision_platform []) ''cam-1'' (Path ''rtsp://cam-1'')
            (set_detection_callback record_detection vision_engine_init))"

definition one_listener :: "audio_event list audio_engine" where
  "one_listener =
     fst (snd (add_listener default_settings demo_audio_platform ''mic-1'' None
                 (set_event_callback record_event audio_engine_init)))"

definition stuck_camera :: "(string \<times> detection) list camera_handler" where
  "stuck_camera =
     snd (camera_start stuck_platform
            (camera_handler_init ''cam-1'' (Path ''rtsp://cam-1'') (Some record_detection)))"

definition second_camera :: "(string \<times> detection) list camera_handler" where
  "second_camera =
     snd (camera_start (demo_vision_platform [])
            (camera_handler_init ''cam-2'' (Path ''rtsp://cam-2'') (Some record_detection)))"

definition two_cameras :: "(string \<times> detection) list vision_engine" where
  "two_cameras =
     snd (add_camera (demo_vision_platform []) ''cam-2'' (Path ''rtsp://cam-2'')
       (snd (add_camera stuck_platform ''cam-1'' (Path ''rtsp://cam-1'')
          (set_detection_callback record_detection vision_engine_init))))"

definition inner_detection :: detection where
  "inner_detection =
     \<lparr>class_id = 0, class_name = ''person'', confidence = 0.75, bbox = (1, 0, 2, 1),
      cropped_image_base64 = ''b64:jpegx''\<rparr>"

definition main_world :: async_world where
  "main_world = \<lparr>current_thread = ''MainThread'', loop_thread = ''MainThread'', scheduled = []\<rparr>"

definition door_settings :: settings where
  "door_settings = default_settings\<lparr>default_camera_url := Some ''rtsp://door''\<rparr>"

definition started_engines :: "async_world vision_engine \<times> async_world audio_engine" where
  "started_engines =
     lifespan_startup (demo_vision_platform demo_boxes) door_settings
       vision_engine_init audio_engine_init"

definition default_camera :: "async_world camera_handler" where
  "default_camera =
     snd (camera_start (demo_vision_platform demo_boxes)
            (camera_handler_init ''default'' (Path ''rtsp://door'') (Some sync_visual_callback)))"

definition wired_listener :: "async_world audio_listener" where
  "wired_listener =
     fst (snd (audio_start demo_audio_platform
                 (audio_listener_init default_settings ''mic-1'' None (Some sync_audio_callback))))"


section \<open>Properties of the audio cooldown\<close>

lemmas demo_defs = demo_inputs_def demo_listener_def audio_listener_init_def
  default_settings_def handle_detection_def record_event_def Let_def

lemma handle_detection_cooldown [simp]:
  "cooldown_ms (fst (snd (handle_detection t a l w))) = cooldown_ms l"
  by (simp add: handle_detection_def Let_def)

lemma listen_loop_inv:
  assumes "0 \<le> cooldown_ms l" and "listen_loop inputs l w = (evs, l', w')"
  shows "sorted_wrt (\<lambda>e1 e2. timestamp e1 + cooldown_ms l \<le> timestamp e2) evs
       \<and> (\<forall>e \<in> set evs. last_event_time l + cooldown_ms l \<le> timestamp e
                        \<and> timestamp e \<le> last_event_time l')
       \<and> cooldown_ms l' = cooldown_ms l
       \<and> last_event_time l \<le> last_event_time l'"
  using assms
proof (induction inputs arbitrary: l w evs l' w')
  case Nil
  then show ?case by simp
next
  case (Cons x inputs)
  obtain now c where x: "x = (now, c)" by (cases x)
  show ?case
  proof (cases "listener_running l \<and> listener_stream l \<noteq> None")
    case False
    with Cons.prems x show ?thesis by auto
  next
    case run: True
    show ?thesis
    proof (cases c)
      case (ReadError e)
      with Cons.prems x run have "listen_loop inputs l w = (evs, l', w')" by simp
      from Cons.IH[OF Cons.prems(1) this] show ?thesis .
    next
      case (Chunk a)
      show ?thesis
      proof (cases "a \<ge> threshold l")
        case False
        with Cons.prems x run Chunk have "listen_loop inputs l w = (evs, l', w')" by simp
        from Cons.IH[OF Cons.prems(1) this] show ?thesis .
      next
        case True
        show ?thesis
        proof (cases "now - last_event_time l < cooldown_ms l")
          case supp: True
          then have "handle_detection now a l w = (None, l, w)"
            by (simp add: handle_detection_def)
          with Cons.prems x run Chunk True have "listen_loop inputs l w = (evs, l', w')"
            by (simp split: prod.splits)
          from Cons.IH[OF Cons.prems(1) this] show ?thesis .
        next
          case acc: False
          obtain ev l1 w1 where hd: "handle_detection now a l w = (Some ev, l1, w1)"
            and ts: "timestamp ev = now" and l1: "last_event_time l1 = now"
            and cd: "cooldown_ms l1 = cooldown_ms l"
            using acc by (simp add: handle_detection_def Let_def)
          obtain evs2 where rest: "listen_loop inputs l1 w1 = (evs2, l', w')"
            and evs: "evs = ev # evs2"
            using Cons.prems(2) x run Chunk True hd by (auto split: prod.splits)
          have "0 \<le> cooldown_ms l1" using cd Cons.prems(1) by simp
          from Cons.IH[OF this rest] cd l1
          have ih: "sorted_wrt (\<lambda>e1 e2. timestamp e1 + cooldown_ms l \<le> timestamp e2) evs2"
            "\<forall>e \<in> set evs2. now + cooldown_ms l \<le> timestamp e \<and> timestamp e \<le> last_event_time l'"
            "cooldown_ms l' = cooldown_ms l" "now \<le> last_event_time l'"
            by simp_all
          from acc have ge: "last_event_time l + cooldown_ms l \<le> now" by simp
          show ?thesis
            using ih ge ts evs Cons.prems(1) by auto
        qed
      qed
    qed
  qed
qed

text \<open>
  C3. The events built by one listener over any run of chunk reads are spaced by at least
  \<open>cooldown_ms\<close>: an event built later carries a timestamp at least \<open>cooldown_ms\<close>
  above that of every event built before it. A detection arriving fewer than
  \<open>cooldown_ms\<close> after the last accepted one returns early and leaves the listener,
  its last-event timestamp included, as it was; an accepted one sets the last-event
  timestamp to its own time. The clock readings are arbitrary integers: the property does
  not need a monotonic clock.
\<close>

theorem cooldown_spacing:
  assumes "0 \<le> cooldown_ms l" and "listen_loop inputs l w = (evs, l', w')"
  shows "(\<forall>i j. i < j \<and> j < length evs \<longrightarrow>
            timestamp (evs ! i) + cooldown_ms l \<le> timestamp (evs ! j))
       \<and> (\<forall>now a. now - last_event_time l < cooldown_ms l \<longrightarrow>
            handle_detection now a l w = (None, l, w))
       \<and> (\<forall>now a. \<not> now - last_event_time l < cooldown_ms l \<longrightarrow>
            (\<exists>e l1 w1. handle_detection now a l w = (Some e, l1, w1) \<and> timestamp e = now
               \<and> last_event_time l1 = now))"
proof (intro conjI allI impI)
  fix i j assume ij: "i < j \<and> j < length evs"
  from listen_loop_inv[OF assms]
  have "sorted_wrt (\<lambda>e1 e2. timestamp e1 + cooldown_ms l \<le> timestamp e2) evs" by simp
  with ij show "timestamp (evs ! i) + cooldown_ms l \<le> timestamp (evs ! j)"
    by (simp add: sorted_wrt_iff_nth_less)
next
  fix now a assume "now - last_event_time l < cooldown_ms l"
  then show "handle_detection now a l w = (None, l, w)"
    by (simp add: handle_detection_def)
next
  fix now a assume "\<not> now - last_event_time l < cooldown_ms l"
  then show "\<exists>e l1 w1. handle_detection now a l w = (Some e, l1, w1) \<and> timestamp e = now
               \<and> last_event_time l1 = now"
    by (simp add: handle_detection_def Let_def)
qed

text \<open>
  The default listener (cooldown 2000 ms) with a recording callback, over eight reads with
  a clock that also steps back: the events at 10000, 12000 and 14000 are emitted, the
  detections at 10500, 11999 and 11000 are suppressed.
\<close>

theorem cooldown_spacing_witness:
  "0 \<le> cooldown_ms demo_listener
   \<and> (\<exists>evs l' w'. listen_loop demo_inputs demo_listener [] = (evs, l', w')
        \<and> w' = evs \<and> map timestamp evs = [10000, 12000, 14000]
        \<and> timestamp (evs ! 0) + 2000 \<le> timestamp (evs ! 2)
        \<and> last_event_time l' = 14000)
   \<and> handle_detection 1500 0.95 demo_listener [] = (None, demo_listener, [])"
proof -
  have h: "0 \<le> cooldown_ms demo_listener"
    by (simp add: demo_defs)
  obtain evs l' w' where run: "listen_loop demo_inputs demo_listener [] = (evs, l', w')"
    by (cases "listen_loop demo_inputs demo_listener []") auto
  have ts: "map timestamp evs = [10000, 12000, 14000]" and w: "w' = evs"
    and lt: "last_event_time l' = 14000"
    using run by (auto simp add: demo_defs)
  have cd: "cooldown_ms demo_listener = 2000" "last_event_time demo_listener = 0"
    by (simp_all add: demo_defs)
  from ts have len: "length evs = 3"
    by (metis length_map length_Cons list.size(3) numeral_3_eq_3)
  note T = cooldown_spacing[OF h run]
  from T len cd have "timestamp (evs ! 0) + 2000 \<le> timestamp (evs ! 2)" by simp
  moreover from T cd
  have "handle_detection 1500 0.95 demo_listener [] = (None, demo_listener, [])"
    by simp
  ultimately show ?thesis using h run ts w lt by simp
qed

section \<open>Severity bands of an audio event\<close>

text \<open>
  C8. An accepted detection of normalized amplitude \<open>a\<close> builds an event described as
  "Loud noise detected - possible scream or alarm" when \<open>a \<ge> 0.9\<close>, as
  "High amplitude sound detected" when \<open>0.8 \<le> a < 0.9\<close>, and as
  "Audio threshold exceeded" below that; the event carries the amplitude, the time of the
  detection and the listener's device id. The amplitude and the bounds are read as the
  real numbers they denote: the doubles written 0.9 and 0.8 are the least doubles above
  these reals, so for a floating point amplitude the comparisons agree.
\<close>

theorem description_bands:
  assumes "handle_detection now a l w = (Some e, l', w')"
  shows "(a \<ge> 0.9 \<longrightarrow> description e = ''Loud noise detected - possible scream or alarm'')
       \<and> (0.8 \<le> a \<and> a < 0.9 \<longrightarrow> description e = ''High amplitude sound detected'')
       \<and> (a < 0.8 \<longrightarrow> description e = ''Audio threshold exceeded'')
       \<and> amplitude e = a \<and> timestamp e = now \<and> device_id e = listener_device_id l"
  using assms by (auto simp add: handle_detection_def Let_def split: if_splits)

text \<open>The three scenarios: amplitudes 0.95, 0.85, and 0.72 against the threshold 0.7.\<close>

theorem description_bands_witness:
  "(\<exists>e l' w'. handle_detection 10000 0.95 demo_listener [] = (Some e, l', w')
       \<and> description e = ''Loud noise detected - possible scream or alarm'')
   \<and> (\<exists>e l' w'. handle_detection 10000 0.85 demo_listener [] = (Some e, l', w')
       \<and> description e = ''High amplitude sound detected'')
   \<and> (\<exists>e l' w'. handle_detection 10000 0.72 demo_listener [] = (Some e, l', w')
       \<and> threshold demo_listener = 0.7
       \<and> description e = ''Audio threshold exceeded'')"
proof -
  have acc: "\<exists>e l' w'. handle_detection 10000 a demo_listener [] = (Some e, l', w')" for a
    by (simp add: demo_defs)
  obtain e1 l1 w1 where r1: "handle_detection 10000 0.95 demo_listener [] = (Some e1, l1, w1)"
    using acc by blast
  obtain e2 l2 w2 where r2: "handle_detection 10000 0.85 demo_listener [] = (Some e2, l2, w2)"
    using acc by blast
  obtain e3 l3 w3 where r3: "handle_detection 10000 0.72 demo_listener [] = (Some e3, l3, w3)"
    using acc by blast
  have "description e1 = ''Loud noise detected - possible scream or alarm''"
    using description_bands[OF r1] by simp
  moreover have "description e2 = ''High amplitude sound detected''"
    using description_bands[OF r2] by simp
  moreover have "description e3 = ''Audio threshold exceeded''"
    using description_bands[OF r3] by simp
  moreover have "threshold demo_listener = 0.7" by (simp add: demo_defs)
  ultimately show ?thesis using r1 r2 r3 by simp
qed

section \<open>Frame skipping in the capture loop\<close>

lemma frames_due_Nil [simp]: "frames_due skip c [] = []"
  by (simp add: frames_due_def)

lemma frames_due_Cons:
  "frames_due skip c (f # fs) =
     (if (c + 1) mod skip = 0 then f # frames_due skip (c + 1) fs else frames_due skip (c + 1) fs)"
proof -
  have "[c + 1 .. c + int (length (f # fs))] = (c + 1) # [c + 1 + 1 .. c + 1 + int (length fs)]"
    by (subst upto_rec1) (simp_all add: algebra_simps)
  then show ?thesis by (simp add: frames_due_def)
qed

lemma successful_reads_simps [simp]:
  "successful_reads [] = []"
  "successful_reads (None # rs) = successful_reads rs"
  "successful_reads (Some f # rs) = f # successful_reads rs"
  by (simp_all add: successful_reads_def)

text \<open>
  C6. While the handler runs on an open capture and \<open>frame_skip\<close> is not zero, the loop
  does not raise, every successful read adds one to the frame counter, failed reads add
  nothing, and the frames handed to inference are exactly the successfully read frames
  whose count (starting at one above the counter's value on entry) is a multiple of
  \<open>frame_skip\<close>.
\<close>

theorem capture_frames_skip:
  assumes "frame_skip cfg \<noteq> 0" and "camera_running h" and "capture h = Some c" and "is_opened c"
    and "capture_frames cfg cd m reads h w = (r, h', frs, ds, w')"
  shows "r = Inr ()
       \<and> frame_count h' = frame_count h + int (length (successful_reads reads))
       \<and> frs = frames_due (frame_skip cfg) (frame_count h) (successful_reads reads)
       \<and> camera_running h' \<and> capture h' = Some c"
  using assms
proof (induction reads arbitrary: h w r h' frs ds w')
  case Nil
  then show ?case by simp
next
  case (Cons rd reads)
  show ?case
  proof (cases rd)
    case None
    with Cons.prems have "capture_frames cfg cd m reads h w = (r, h', frs, ds, w')" by simp
    from Cons.IH[OF Cons.prems(1-4) this] None show ?thesis by simp
  next
    case (Some fr)
    let ?h1 = "h\<lparr>frame_count := frame_count h + 1\<rparr>"
    have h1: "camera_running ?h1" "capture ?h1 = Some c" using Cons.prems by simp_all
    show ?thesis
    proof (cases "(frame_count h + 1) mod frame_skip cfg = 0")
      case False
      with Cons.prems Some have "capture_frames cfg cd m reads ?h1 w = (r, h', frs, ds, w')"
        by (simp add: Let_def)
      from Cons.IH[OF Cons.prems(1) h1 Cons.prems(4) this] Some False show ?thesis
        by (simp add: frames_due_Cons)
    next
      case True
      obtain r1 ds1 w1 where pf: "process_frame cfg cd m ?h1 fr w = (r1, ds1, w1)"
        by (cases "process_frame cfg cd m ?h1 fr w") auto
      obtain frs2 ds2 where rest: "capture_frames cfg cd m reads ?h1 w1 = (r, h', frs2, ds2, w')"
        and frs: "frs = fr # frs2"
        using Cons.prems Some True pf by (auto simp add: Let_def split: prod.splits)
      from Cons.IH[OF Cons.prems(1) h1 Cons.prems(4) rest] Some True frs show ?thesis
        by (simp add: frames_due_Cons)
    qed
  qed
qed

text \<open>
  The scenario: \<open>frame_skip = 2\<close> and five frames read (two more reads fail in between);
  frames 2 and 4 are processed and the counter ends at 5.
\<close>

theorem capture_frames_skip_witness:
  "frame_skip default_settings \<noteq> 0 \<and> camera_running demo_camera
   \<and> (\<exists>c. capture demo_camera = Some c \<and> is_opened c)
   \<and> (\<exists>r h' frs ds w'.
        capture_frames default_settings demo_codec (demo_model []) demo_reads demo_camera []
          = (r, h', frs, ds, w')
        \<and> r = Inr () \<and> frs = [demo_frame 2, demo_frame 4] \<and> frame_count h' = 5)"
proof -
  let ?c = "\<lparr>is_opened = True, release_outcome = None\<rparr>"
  have a1: "frame_skip default_settings \<noteq> 0" by (simp add: default_settings_def)
  have a2: "camera_running demo_camera" and a3: "capture demo_camera = Some ?c"
    and fc: "frame_count demo_camera = 0"
    by (simp_all add: demo_camera_def camera_start_def camera_handler_init_def
        demo_vision_platform_def Let_def)
  have a4: "is_opened ?c" by simp
  obtain r h' frs ds w' where run:
    "capture_frames default_settings demo_codec (demo_model []) demo_reads demo_camera []
       = (r, h', frs, ds, w')"
    by (metis prod_cases5)
  have sr: "successful_reads demo_reads
              = [demo_frame 1, demo_frame 2, demo_frame 3, demo_frame 4, demo_frame 5]"
    by (simp add: demo_reads_def)
  have fs: "frame_skip default_settings = 2" by (simp add: default_settings_def)
  from capture_frames_skip[OF a1 a2 a3 a4 run]
  have "r = Inr ()" "frame_count h' = 5" "frs = [demo_frame 2, demo_frame 4]"
    by (simp_all add: sr fs fc frames_due_Cons)
  with a1 a2 a3 run show ?thesis by simp
qed

section \<open>Cropping a detection\<close>

lemma slice_bound_le: "slice_bound n i \<le> n"
  by (auto simp add: slice_bound_def)

lemma length_py_slice: "length (py_slice a b xs) \<le> length xs"
  by (simp add: py_slice_def Let_def)

lemma set_py_slice: "set (py_slice a b xs) \<subseteq> set xs"
  by (auto simp add: py_slice_def Let_def dest: in_set_takeD in_set_dropD)

lemma py_slice_in_range:
  assumes "0 \<le> a" "a \<le> b" "b \<le> int (length xs)"
  shows "py_slice a b xs = take (nat (b - a)) (drop (nat a) xs)"
    and "length (py_slice a b xs) = nat (b - a)"
proof -
  have lo: "slice_bound (length xs) a = nat a" and hi: "slice_bound (length xs) b = nat b"
    using assms by (auto simp add: slice_bound_def)
  have "nat b - nat a = nat (b - a)" using assms by linarith
  then show "py_slice a b xs = take (nat (b - a)) (drop (nat a) xs)"
    by (simp add: py_slice_def lo hi)
  then show "length (py_slice a b xs) = nat (b - a)"
    using assms by auto
qed

lemma process_box_Some:
  assumes "process_box cfg cd m h fr b w = (Inr (Some d), w')"
  shows "py_int (box_cls b) \<in> set (target_classes cfg) \<and> box_conf b \<ge> detection_confidence cfg
       \<and> bbox d = crop_coords b
       \<and> (case crop_coords b of (x1, y1, x2, y2) \<Rightarrow>
            encode_image cd (crop_frame fr y1 y2 x1 x2) = Inr (cropped_image_base64 d))"
  using assms
  by (auto simp add: process_box_def Let_def split: if_splits prod.splits sum.splits)

lemma process_boxes_mem:
  assumes "process_boxes cfg cd m h fr bs w = (r, ds, w')" and "d \<in> set ds"
  shows "\<exists>b \<in> set bs. \<exists>w0 w1. process_box cfg cd m h fr b w0 = (Inr (Some d), w1)"
  using assms
proof (induction bs arbitrary: w r ds w')
  case Nil
  then show ?case by simp
next
  case (Cons b bs)
  obtain rb w1 where pb: "process_box cfg cd m h fr b w = (rb, w1)"
    by (cases "process_box cfg cd m h fr b w") auto
  show ?case
  proof (cases rb)
    case (Inl e)
    with Cons.prems pb show ?thesis by simp
  next
    case (Inr od)
    obtain r2 ds2 w2 where rest: "process_boxes cfg cd m h fr bs w1 = (r2, ds2, w2)"
      by (cases "process_boxes cfg cd m h fr bs w1") auto
    from Cons.prems pb Inr rest
    have ds: "ds = (case od of None \<Rightarrow> [] | Some x \<Rightarrow> [x]) @ ds2" by simp
    show ?thesis
    proof (cases "d \<in> set ds2")
      case True
      from Cons.IH[OF rest True] show ?thesis by auto
    next
      case False
      with ds Cons.prems(2) have "od = Some d" by (cases od) auto
      with pb Inr show ?thesis by auto
    qed
  qed
qed

lemma process_results_mem:
  assumes "process_results cfg cd m h fr rs w = (r, ds, w')" and "d \<in> set ds"
  shows "\<exists>boxes b. Some boxes \<in> set rs \<and> b \<in> set boxes
           \<and> (\<exists>w0 w1. process_box cfg cd m h fr b w0 = (Inr (Some d), w1))"
  using assms
proof (induction rs arbitrary: w r ds w')
  case Nil
  then show ?case by simp
next
  case (Cons x rs)
  show ?case
  proof (cases x)
    case None
    with Cons.prems have "process_results cfg cd m h fr rs w = (r, ds, w')" by simp
    from Cons.IH[OF this Cons.prems(2)] show ?thesis by auto
  next
    case (Some boxes)
    obtain r1 ds1 w1 where pb: "process_boxes cfg cd m h fr boxes w = (r1, ds1, w1)"
      by (cases "process_boxes cfg cd m h fr boxes w") auto
    show ?thesis
    proof (cases "d \<in> set ds1")
      case True
      from process_boxes_mem[OF pb True] Some show ?thesis by auto
    next
      case False
      show ?thesis
      proof (cases r1)
        case (Inl e)
        with Cons.prems pb False Some show ?thesis by simp
      next
        case (Inr u)
        obtain r2 ds2 w2 where rest: "process_results cfg cd m h fr rs w1 = (r2, ds2, w2)"
          by (cases "process_results cfg cd m h fr rs w1") auto
        with Cons.prems pb Inr False Some have "d \<in> set ds2" by auto
        from Cons.IH[OF rest this] show ?thesis by auto
      qed
    qed
  qed
qed

lemma crop_frame_within:
  "length (crop_frame fr y1 y2 x1 x2) \<le> length fr"
  "row \<in> set (crop_frame fr y1 y2 x1 x2) \<Longrightarrow>
     \<exists>row0 \<in> set fr. set row \<subseteq> set row0 \<and> length row \<le> length row0"
proof -
  show "length (crop_frame fr y1 y2 x1 x2) \<le> length fr"
    by (simp add: crop_frame_def length_py_slice)
  assume "row \<in> set (crop_frame fr y1 y2 x1 x2)"
  then obtain row0 where r0: "row0 \<in> set (py_slice y1 y2 fr)" and row: "row = py_slice x1 x2 row0"
    by (auto simp add: crop_frame_def)
  from r0 set_py_slice[of y1 y2 fr] have "row0 \<in> set fr" by auto
  with row show "\<exists>row0 \<in> set fr. set row \<subseteq> set row0 \<and> length row \<le> length row0"
    using set_py_slice[of x1 x2 row0] length_py_slice[of x1 x2 row0] by auto
qed

lemma crop_frame_in_range:
  assumes "coords_in_frame fr (x1, y1, x2, y2)" and "\<forall>row \<in> set fr. length row = frame_width fr"
  shows "length (crop_frame fr y1 y2 x1 x2) = nat (y2 - y1)"
    and "\<forall>row \<in> set (crop_frame fr y1 y2 x1 x2). length row = nat (x2 - x1)"
proof -
  from assms(1) have y: "0 \<le> y1" "y1 \<le> y2" "y2 \<le> int (length fr)"
    and x: "0 \<le> x1" "x1 \<le> x2" "x2 \<le> int (frame_width fr)"
    by (simp_all add: coords_in_frame_def frame_height_def)
  show "length (crop_frame fr y1 y2 x1 x2) = nat (y2 - y1)"
    by (simp add: crop_frame_def py_slice_in_range(2)[OF y])
  show "\<forall>row \<in> set (crop_frame fr y1 y2 x1 x2). length row = nat (x2 - x1)"
  proof
    fix row assume "row \<in> set (crop_frame fr y1 y2 x1 x2)"
    then obtain row0 where r0: "row0 \<in> set (py_slice y1 y2 fr)" and row: "row = py_slice x1 x2 row0"
      by (auto simp add: crop_frame_def)
    from r0 set_py_slice[of y1 y2 fr] have "row0 \<in> set fr" by auto
    with assms(2) have "length row0 = frame_width fr" by simp
    with x have "x2 \<le> int (length row0)" by simp
    from py_slice_in_range(2)[OF x(1) x(2) this] row show "length row = nat (x2 - x1)" by simp
  qed
qed

lemmas vis_defs = process_frame_def process_box_def demo_model_def demo_boxes_def
  wide_box_def inner_box_def faint_box_def empty_box_def default_settings_def py_int_def
  crop_coords_def crop_frame_def py_slice_def slice_bound_def demo_frame_def demo_codec_def
  encode_image_def encode_image_try_def demo_camera_def camera_start_def
  camera_handler_init_def demo_vision_platform_def record_detection_def Let_def

lemma demo_process:
  "process_frame default_settings demo_codec (demo_model demo_boxes) demo_camera (demo_frame 1) []
     = (Inr (), [wide_detection,
                 \<lparr>class_id = 0, class_name = ''person'', confidence = 0.75, bbox = (1, 0, 2, 1),
                  cropped_image_base64 = ''b64:jpegx''\<rparr>,
                 empty_detection],
        [(''cam-1'', wide_detection),
         (''cam-1'', \<lparr>class_id = 0, class_name = ''person'', confidence = 0.75, bbox = (1, 0, 2, 1),
                  cropped_image_base64 = ''b64:jpegx''\<rparr>),
         (''cam-1'', empty_detection)])"
  by (simp add: vis_defs wide_detection_def empty_detection_def)

text \<open>
  C2, as the code has it. Every detection built from a frame comes from a box of the
  inference result whose class is a target class and whose confidence reaches the
  threshold. Its crop coordinates are the box's four coordinates truncated toward zero by
  \<^verbatim>\<open>int\<close>, with no clamping: they are stored as the detection's \<open>bbox\<close> and used as
  the slice bounds as they are. Only the slice resolves them (a negative bound counts from
  the far edge, a bound beyond an edge is cut to it), so the crop never has more rows than
  the frame and each of its rows is part of a row of the frame; and when the coordinates do
  lie within a rectangular frame, the crop is the \<open>y2 - y1\<close> by \<open>x2 - x1\<close> region.
\<close>
theorem crop_coordinates_unclamped:
  assumes "process_frame cfg cd m h fr w = (r, ds, w')" and "d \<in> set ds"
  shows "\<exists>results boxes b x1 y1 x2 y2.
           infer m fr = Inr results \<and> Some boxes \<in> set results \<and> b \<in> set boxes
         \<and> py_int (box_cls b) \<in> set (target_classes cfg)
         \<and> box_conf b \<ge> detection_confidence cfg
         \<and> (case box_xyxy b of (fx1, fy1, fx2, fy2) \<Rightarrow>
               (x1, y1, x2, y2) = (py_int fx1, py_int fy1, py_int fx2, py_int fy2))
         \<and> bbox d = (x1, y1, x2, y2)
         \<and> encode_image cd (crop_frame fr y1 y2 x1 x2) = Inr (cropped_image_base64 d)
         \<and> length (crop_frame fr y1 y2 x1 x2) \<le> length fr
         \<and> (\<forall>row \<in> set (crop_frame fr y1 y2 x1 x2).
               \<exists>row0 \<in> set fr. set row \<subseteq> set row0 \<and> length row \<le> length row0)
         \<and> (coords_in_frame fr (x1, y1, x2, y2) \<and> (\<forall>row \<in> set fr. length row = frame_width fr)
               \<longrightarrow> length (crop_frame fr y1 y2 x1 x2) = nat (y2 - y1)
                 \<and> (\<forall>row \<in> set (crop_frame fr y1 y2 x1 x2). length row = nat (x2 - x1)))"
proof -
  obtain results where inf: "infer m fr = Inr results"
    and pr: "process_results cfg cd m h fr results w = (r, ds, w')"
    using assms by (auto simp add: process_frame_def split: sum.splits)
  from process_results_mem[OF pr assms(2)]
  obtain boxes b w0 w1 where bx: "Some boxes \<in> set results" "b \<in> set boxes"
    and pb: "process_box cfg cd m h fr b w0 = (Inr (Some d), w1)"
    by blast
  obtain x1 y1 x2 y2 where cc: "crop_coords b = (x1, y1, x2, y2)"
    by (metis prod_cases4)
  note P = process_box_Some[OF pb]
  from P cc have enc: "encode_image cd (crop_frame fr y1 y2 x1 x2) = Inr (cropped_image_base64 d)"
    and bb: "bbox d = (x1, y1, x2, y2)" by simp_all
  have tr: "case box_xyxy b of (fx1, fy1, fx2, fy2) \<Rightarrow>
               (x1, y1, x2, y2) = (py_int fx1, py_int fy1, py_int fx2, py_int fy2)"
    using cc by (auto simp add: crop_coords_def split: prod.splits)
  have w1: "length (crop_frame fr y1 y2 x1 x2) \<le> length fr"
    by (rule crop_frame_within(1))
  have w2: "\<forall>row \<in> set (crop_frame fr y1 y2 x1 x2).
               \<exists>row0 \<in> set fr. set row \<subseteq> set row0 \<and> length row \<le> length row0"
    using crop_frame_within(2)[of _ fr y1 y2 x1 x2] by auto
  have w3: "coords_in_frame fr (x1, y1, x2, y2) \<and> (\<forall>row \<in> set fr. length row = frame_width fr)
               \<longrightarrow> length (crop_frame fr y1 y2 x1 x2) = nat (y2 - y1)
                 \<and> (\<forall>row \<in> set (crop_frame fr y1 y2 x1 x2). length row = nat (x2 - x1))"
    using crop_frame_in_range[of fr x1 y1 x2 y2] by simp
  show ?thesis
    apply (rule exI[of _ results], rule exI[of _ boxes], rule exI[of _ b])
    apply (rule exI[of _ x1], rule exI[of _ y1], rule exI[of _ x2], rule exI[of _ y2])
    apply (intro conjI)
    subgoal by (rule inf)
    subgoal by (rule bx)
    subgoal by (rule bx)
    subgoal using P by simp
    subgoal using P by simp
    subgoal by (rule tr)
    subgoal by (rule bb)
    subgoal by (rule enc)
    subgoal by (rule w1)
    subgoal by (rule w2)
    subgoal by (rule w3)
    done
qed

text \<open>
  A 2 by 3 frame and a box reaching from \<open>-1.5\<close> to \<open>7.9\<close> horizontally: the
  detection carries the coordinates \<open>(-1, 0, 7, 5)\<close>, and the crop is the last column.
\<close>
theorem crop_coordinates_unclamped_witness:
  "(\<exists>r ds w'. process_frame default_settings demo_codec (demo_model demo_boxes) demo_camera
        (demo_frame 1) [] = (r, ds, w') \<and> wide_detection \<in> set ds)
   \<and> (\<exists>x1 y1 x2 y2. bbox wide_detection = (x1, y1, x2, y2)
        \<and> encode_image demo_codec (crop_frame (demo_frame 1) y1 y2 x1 x2)
            = Inr (cropped_image_base64 wide_detection)
        \<and> length (crop_frame (demo_frame 1) y1 y2 x1 x2) \<le> length (demo_frame 1))
   \<and> crop_frame (demo_frame 1) 0 5 (-1) 7 = [[(1, 2, 0)], [(1, 2, 1)]]"
proof -
  have mem: "wide_detection \<in> set [wide_detection,
                 \<lparr>class_id = 0, class_name = ''person'', confidence = 0.75, bbox = (1, 0, 2, 1),
                  cropped_image_base64 = ''b64:jpegx''\<rparr>, empty_detection]"
    by simp
  from crop_coordinates_unclamped[OF demo_process mem]
  have "\<exists>x1 y1 x2 y2. bbox wide_detection = (x1, y1, x2, y2)
        \<and> encode_image demo_codec (crop_frame (demo_frame 1) y1 y2 x1 x2)
            = Inr (cropped_image_base64 wide_detection)
        \<and> length (crop_frame (demo_frame 1) y1 y2 x1 x2) \<le> length (demo_frame 1)"
    by blast
  moreover have "crop_frame (demo_frame 1) 0 5 (-1) 7 = [[(1, 2, 0)], [(1, 2, 1)]]"
    by (simp add: crop_frame_def py_slice_def slice_bound_def demo_frame_def)
  ultimately show ?thesis using demo_process mem by simp
qed

text \<open>
  C2 as stated fails: on the same frame of width 3 and height 2 the detection built from
  that box has \<open>x1 = -1\<close>, \<open>x2 = 7\<close> and \<open>y2 = 5\<close>, outside the pixel range.
\<close>
theorem crop_clamped_counterexample:
  "wide_detection \<in> set (fst (snd (process_frame default_settings demo_codec
        (demo_model demo_boxes) demo_camera (demo_frame 1) [])))
   \<and> bbox wide_detection = (-1, 0, 7, 5)
   \<and> frame_width (demo_frame 1) = 3 \<and> frame_height (demo_frame 1) = 2
   \<and> \<not> coords_in_frame (demo_frame 1) (bbox wide_detection)"
  by (subst demo_process)
     (simp add: wide_detection_def coords_in_frame_def frame_width_def frame_height_def
        demo_frame_def)

section \<open>Encoding a crop\<close>

lemma encode_image_Inr: "\<exists>s. encode_image cd img = Inr s"
  by (simp add: encode_image_def split: sum.splits)

text \<open>
  C10. \<^verbatim>\<open>_encode_image\<close> returns a string for every input and never raises: the base64
  text of the JPEG bytes when colour conversion, image construction and saving all
  succeed, the empty string as soon as one of them raises. A qualifying box therefore
  always yields a detection, handed to the installed callback, whose image is the empty
  string when encoding failed; and the alert built from a detection carries the
  detection's image as it is.
\<close>
theorem encode_image_total:
  "(\<exists>s. encode_image cd img = Inr s)
   \<and> (\<forall>rgb pil buf. cvt_color cd img = Inr rgb \<and> from_array cd rgb = Inr pil
          \<and> save_jpeg cd pil 85 = Inr buf \<longrightarrow> encode_image cd img = Inr (b64encode cd buf))
   \<and> ((\<exists>e. cvt_color cd img = Inl e)
        \<or> (\<exists>rgb. cvt_color cd img = Inr rgb
              \<and> ((\<exists>e. from_array cd rgb = Inl e)
                  \<or> (\<exists>pil. from_array cd rgb = Inr pil \<and> (\<exists>e. save_jpeg cd pil 85 = Inl e))))
        \<longrightarrow> encode_image cd img = Inr [])
   \<and> (\<forall>(b::box) cb. py_int (box_cls b) \<in> set (target_classes cfg)
          \<and> box_conf b \<ge> detection_confidence cfg \<and> on_detection h = Some cb \<longrightarrow>
        (\<exists>d x1 y1 x2 y2. crop_coords b = (x1, y1, x2, y2)
           \<and> process_box cfg cd m h fr b w = (Inr (Some d), snd (cb (camera_id h) d w))
           \<and> encode_image cd (crop_frame fr y1 y2 x1 x2) = Inr (cropped_image_base64 d)
           \<and> ((\<exists>e. encode_image_try cd (crop_frame fr y1 y2 x1 x2) = Inl e)
                 \<longrightarrow> cropped_image_base64 d = [])))
   \<and> (\<forall>d. handle_visual_detection percent net now cid d sc
          = send_alert net now cid ''VISUAL''
              (capitalize (class_name d) @ '' detected with '' @ percent (confidence d)
                 @ '' confidence'')
              (cropped_image_base64 d) None sc
        \<and> imageBase64 (build_payload now cid ''VISUAL''
              (capitalize (class_name d) @ '' detected with '' @ percent (confidence d)
                 @ '' confidence'')
              (cropped_image_base64 d) None) = cropped_image_base64 d)"
proof (intro conjI allI impI)
  show "\<exists>s. encode_image cd img = Inr s" by (rule encode_image_Inr)
next
  fix rgb pil buf
  assume "cvt_color cd img = Inr rgb \<and> from_array cd rgb = Inr pil \<and> save_jpeg cd pil 85 = Inr buf"
  then show "encode_image cd img = Inr (b64encode cd buf)"
    by (simp add: encode_image_def encode_image_try_def)
next
  assume "(\<exists>e. cvt_color cd img = Inl e)
        \<or> (\<exists>rgb. cvt_color cd img = Inr rgb
              \<and> ((\<exists>e. from_array cd rgb = Inl e)
                  \<or> (\<exists>pil. from_array cd rgb = Inr pil \<and> (\<exists>e. save_jpeg cd pil 85 = Inl e))))"
  then show "encode_image cd img = Inr []"
    by (auto simp add: encode_image_def encode_image_try_def)
next
  fix b :: box and cb
  assume q: "py_int (box_cls b) \<in> set (target_classes cfg)
          \<and> box_conf b \<ge> detection_confidence cfg \<and> on_detection h = Some cb"
  obtain x1 y1 x2 y2 where cc: "crop_coords b = (x1, y1, x2, y2)"
    by (metis prod_cases4)
  obtain s where enc: "encode_image cd (crop_frame fr y1 y2 x1 x2) = Inr s"
    using encode_image_Inr by blast
  let ?d = "\<lparr>class_id = py_int (box_cls b),
             class_name = (case names m (py_int (box_cls b)) of None \<Rightarrow> ''unknown'' | Some n \<Rightarrow> n),
             confidence = box_conf b, bbox = (x1, y1, x2, y2), cropped_image_base64 = s\<rparr>"
  have pb: "process_box cfg cd m h fr b w = (Inr (Some ?d), snd (cb (camera_id h) ?d w))"
    using q cc enc by (simp add: process_box_def Let_def)
  have emp: "(\<exists>e. encode_image_try cd (crop_frame fr y1 y2 x1 x2) = Inl e) \<longrightarrow> s = []"
    using enc by (auto simp add: encode_image_def)
  show "\<exists>d x1 y1 x2 y2. crop_coords b = (x1, y1, x2, y2)
           \<and> process_box cfg cd m h fr b w = (Inr (Some d), snd (cb (camera_id h) d w))
           \<and> encode_image cd (crop_frame fr y1 y2 x1 x2) = Inr (cropped_image_base64 d)
           \<and> ((\<exists>e. encode_image_try cd (crop_frame fr y1 y2 x1 x2) = Inl e)
                 \<longrightarrow> cropped_image_base64 d = [])"
    apply (rule exI[of _ ?d], rule exI[of _ x1], rule exI[of _ y1], rule exI[of _ x2],
        rule exI[of _ y2])
    using cc pb enc emp by simp
next
  fix d
  show "handle_visual_detection percent net now cid d sc
          = send_alert net now cid ''VISUAL''
              (capitalize (class_name d) @ '' detected with '' @ percent (confidence d)
                 @ '' confidence'')
              (cropped_image_base64 d) None sc"
    by (simp add: handle_visual_detection_def Let_def)
next
  fix d
  show "imageBase64 (build_payload now cid ''VISUAL''
              (capitalize (class_name d) @ '' detected with '' @ percent (confidence d)
                 @ '' confidence'')
              (cropped_image_base64 d) None) = cropped_image_base64 d"
    by (simp add: build_payload_def)
qed

section \<open>Alert delivery\<close>

lemma get_client_url:
  "get_client net sc = (r, sc') \<Longrightarrow> connector_backend_url sc' = connector_backend_url sc"
  by (auto simp add: get_client_def split: option.splits sum.splits)

text \<open>
  C4. \<^verbatim>\<open>send_alert\<close> never raises: it returns true or false. It returns true exactly
  when the client is available and the POST to \<open>backend_url\<close> followed by
  \<^verbatim>\<open>/api/v1/alerts\<close> with the payload answers with status 200 or 201; any other
  status, an exception of the POST and an exception while getting the client all give
  false. The payload carries the given fields, and the current time in milliseconds as
  its timestamp when none is given.
\<close>
theorem send_alert_result:
  "(fst (send_alert net now cam ty desc img ts sc) = Inr True
      \<or> fst (send_alert net now cam ty desc img ts sc) = Inr False)
   \<and> (fst (send_alert net now cam ty desc img ts sc) = Inr True \<longleftrightarrow>
        (\<exists>c sc' st. get_client net sc = (Inr c, sc')
           \<and> http_post net c (connector_backend_url sc @ ''/api/v1/alerts'')
                (build_payload now cam ty desc img ts) = Inr st
           \<and> (st = 200 \<or> st = 201)))
   \<and> (\<forall>c sc' st. get_client net sc = (Inr c, sc')
           \<and> http_post net c (connector_backend_url sc @ ''/api/v1/alerts'')
                (build_payload now cam ty desc img ts) = Inr st
           \<and> st \<noteq> 200 \<and> st \<noteq> 201
         \<longrightarrow> fst (send_alert net now cam ty desc img ts sc) = Inr False)
   \<and> (\<forall>c sc' e. get_client net sc = (Inr c, sc')
           \<and> http_post net c (connector_backend_url sc @ ''/api/v1/alerts'')
                (build_payload now cam ty desc img ts) = Inl e
         \<longrightarrow> fst (send_alert net now cam ty desc img ts sc) = Inr False)
   \<and> (\<forall>e sc'. get_client net sc = (Inl e, sc')
         \<longrightarrow> fst (send_alert net now cam ty desc img ts sc) = Inr False)
   \<and> build_payload now cam ty desc img None
        = \<lparr>cameraId = cam, alertType = ty, alert_description = desc, imageBase64 = img,
           alert_timestamp = now\<rparr>
   \<and> (\<forall>t. build_payload now cam ty desc img (Some t)
        = \<lparr>cameraId = cam, alertType = ty, alert_description = desc, imageBase64 = img,
           alert_timestamp = t\<rparr>)"
proof -
  obtain rc sc1 where gc: "get_client net sc = (rc, sc1)"
    by (cases "get_client net sc") auto
  have url: "connector_backend_url sc1 = connector_backend_url sc"
    using get_client_url[OF gc] .
  show ?thesis
  proof (cases rc)
    case (Inl e)
    with gc show ?thesis
      by (cases e) (simp_all add: send_alert_def send_alert_try_def build_payload_def Let_def)
  next
    case (Inr c)
    show ?thesis
    proof (cases "http_post net c (connector_backend_url sc @ ''/api/v1/alerts'')
                (build_payload now cam ty desc img ts)")
      case (Inl e)
      with gc Inr url show ?thesis
        by (cases e) (simp_all add: send_alert_def send_alert_try_def build_payload_def Let_def)
    next
      case st: (Inr st)
      with gc Inr url show ?thesis
        by (simp add: send_alert_def send_alert_try_def build_payload_def Let_def)
    qed
  qed
qed

lemmas net_defs = send_alert_def send_alert_try_def build_payload_def get_client_def
  health_check_def expecting_network_def demo_connector_def service_connector_init_def
  default_settings_def Let_def

text \<open>
  Backends answering 200, 201, 503 and 204, a network that raises
  \<^verbatim>\<open>httpx.RequestError\<close>, a client that cannot be built, and a backend that accepts
  only the expected URL and a payload stamped with the current time.
\<close>
theorem send_alert_result_witness:
  "fst (send_alert (demo_network 200) 5000 ''cam-1'' ''VISUAL'' ''x'' ''img'' None demo_connector)
     = Inr True
   \<and> fst (send_alert (demo_network 201) 5000 ''cam-1'' ''VISUAL'' ''x'' ''img'' None demo_connector)
     = Inr True
   \<and> fst (send_alert (demo_network 503) 5000 ''cam-1'' ''VISUAL'' ''x'' ''img'' None demo_connector)
     = Inr False
   \<and> fst (health_check (demo_network 503) demo_connector) = Inr False
   \<and> fst (send_alert (demo_network 204) 5000 ''cam-1'' ''VISUAL'' ''x'' ''img'' None demo_connector)
     = Inr False
   \<and> fst (send_alert down_network 5000 ''cam-1'' ''VISUAL'' ''x'' ''img'' None demo_connector)
     = Inr False
   \<and> fst (send_alert broken_network 5000 ''cam-1'' ''VISUAL'' ''x'' ''img'' None demo_connector)
     = Inr False
   \<and> fst (send_alert
        (expecting_network ''http://management-server:8080/api/v1/alerts''
           \<lparr>cameraId = ''mic-1'', alertType = ''AUDIO'', alert_description = ''x'',
            imageBase64 = [], alert_timestamp = 5000\<rparr>)
        5000 ''mic-1'' ''AUDIO'' ''x'' [] None demo_connector) = Inr True"
proof -
  let ?hdr = "\<lparr>client_timeout = 30,
               client_headers = [(''Content-Type'', ''application/json''),
                                 (''X-API-KEY'', ''changeme-api-key'')]\<rparr>"
  let ?sc' = "demo_connector\<lparr>client := Some ?hdr\<rparr>"
  have gc: "get_client (demo_network s) demo_connector = (Inr ?hdr, ?sc')" for s
    by (simp add: net_defs demo_network_def down_network_def broken_network_def)
  have p: "http_post (demo_network s) ?hdr
             (connector_backend_url demo_connector @ ''/api/v1/alerts'')
             (build_payload 5000 ''cam-1'' ''VISUAL'' ''x'' ''img'' None) = Inr s" for s
    by (simp add: demo_network_def)
  note T = send_alert_result[of _ 5000 _ _ "''x''" _ None demo_connector]
  have "fst (send_alert (demo_network 200) 5000 ''cam-1'' ''VISUAL'' ''x'' ''img'' None demo_connector)
     = Inr True"
    using T[of "demo_network 200" "''cam-1''" "''VISUAL''" "''img''"] gc[of 200] p[of 200]
    by blast
  moreover
  have "fst (send_alert (demo_network 201) 5000 ''cam-1'' ''VISUAL'' ''x'' ''img'' None demo_connector)
     = Inr True"
    using T[of "demo_network 201" "''cam-1''" "''VISUAL''" "''img''"] gc[of 201] p[of 201]
    by blast
  moreover
  have "fst (send_alert (demo_network 503) 5000 ''cam-1'' ''VISUAL'' ''x'' ''img'' None demo_connector)
     = Inr False"
    using T[of "demo_network 503" "''cam-1''" "''VISUAL''" "''img''"] gc[of 503] p[of 503]
    by (simp del: One_nat_def)
  moreover have "fst (health_check (demo_network 503) demo_connector) = Inr False"
    by (simp add: net_defs demo_network_def down_network_def broken_network_def)
  moreover
  have "fst (send_alert (demo_network 204) 5000 ''cam-1'' ''VISUAL'' ''x'' ''img'' None demo_connector)
     = Inr False"
    by (simp add: net_defs demo_network_def down_network_def broken_network_def)
  moreover
  have "fst (send_alert down_network 5000 ''cam-1'' ''VISUAL'' ''x'' ''img'' None demo_connector)
     = Inr False"
    by (simp add: net_defs demo_network_def down_network_def broken_network_def)
  moreover
  have "fst (send_alert broken_network 5000 ''cam-1'' ''VISUAL'' ''x'' ''img'' None demo_connector)
     = Inr False"
    by (simp add: net_defs demo_network_def down_network_def broken_network_def)
  moreover
  have "fst (send_alert
        (expecting_network ''http://management-server:8080/api/v1/alerts''
           \<lparr>cameraId = ''mic-1'', alertType = ''AUDIO'', alert_description = ''x'',
            imageBase64 = [], alert_timestamp = 5000\<rparr>)
        5000 ''mic-1'' ''AUDIO'' ''x'' [] None demo_connector) = Inr True"
    by (simp add: net_defs demo_network_def down_network_def broken_network_def)
  ultimately show ?thesis by blast
qed


text \<open>
  An image library that fails on an empty crop: the crop of a box whose right edge lies
  left of its left edge encodes to the empty string, the detection is still built and
  handed to the callback, and the alert built from it is posted with an empty image.
\<close>
theorem encode_image_total_witness:
  "encode_image demo_codec [[], []] = Inr []
   \<and> encode_image demo_codec [[(1, 2, 3)]] = Inr ''b64:jpegx''
   \<and> process_box default_settings demo_codec (demo_model demo_boxes) demo_camera (demo_frame 1)
        empty_box [] = (Inr (Some empty_detection), [(''cam-1'', empty_detection)])
   \<and> cropped_image_base64 empty_detection = []
   \<and> fst (handle_visual_detection demo_percent
        (expecting_network ''http://management-server:8080/api/v1/alerts'' empty_image_payload)
        5000 ''cam-1'' empty_detection demo_connector) = Inr True"
proof -
  note T = encode_image_total[of demo_codec _ default_settings demo_camera "demo_model demo_boxes"
      "demo_frame 1" "[]" demo_percent
      "expecting_network ''http://management-server:8080/api/v1/alerts'' empty_image_payload"
      5000 "''cam-1''" demo_connector]
  have c1: "cvt_color demo_codec [[], []] = Inl (Exception ''cv2.error'')"
    by (simp add: demo_codec_def)
  from T[of "[[], []]"] c1 have e1: "encode_image demo_codec [[], []] = Inr []"
    by blast
  have c2: "cvt_color demo_codec [[(1, 2, 3)]] = Inr [[(3, 2, 1)]]"
    "from_array demo_codec [[(3, 2, 1)]] = Inr [[(3, 2, 1)]]"
    "save_jpeg demo_codec [[(3, 2, 1)]] 85 = Inr ''jpegx''"
    "b64encode demo_codec ''jpegx'' = ''b64:jpegx''"
    by (simp_all add: demo_codec_def)
  from T[of "[[(1, 2, 3)]]"] c2 have e2: "encode_image demo_codec [[(1, 2, 3)]] = Inr ''b64:jpegx''"
    by metis
  have pb: "process_box default_settings demo_codec (demo_model demo_boxes) demo_camera (demo_frame 1)
        empty_box [] = (Inr (Some empty_detection), [(''cam-1'', empty_detection)])"
    by (simp add: vis_defs empty_detection_def)
  have cap: "capitalize ''person'' = ''Person''"
    by code_simp
  have hv: "fst (handle_visual_detection demo_percent
        (expecting_network ''http://management-server:8080/api/v1/alerts'' empty_image_payload)
        5000 ''cam-1'' empty_detection demo_connector) = Inr True"
    by (simp add: handle_visual_detection_def net_defs empty_detection_def demo_percent_def
        empty_image_payload_def cap)
  show ?thesis using e1 e2 pb hv by (simp add: empty_detection_def)
qed

section \<open>Adding a handler to a registry\<close>

lemma camera_start_fields:
  "camera_start pf h = (ok, h') \<Longrightarrow>
     on_detection h' = on_detection h \<and> source h' = source h \<and> camera_id h' = camera_id h"
  by (auto simp add: camera_start_def Let_def split: if_splits sum.splits option.splits)

lemma cleanup_fields:
  "cleanup l = (l', t) \<Longrightarrow>
     on_event l' = on_event l \<and> listener_device_id l' = listener_device_id l
     \<and> device_index l' = device_index l \<and> listener_running l' = listener_running l
     \<and> listener_thread l' = listener_thread l
     \<and> listener_stream l' = None \<and> listener_pyaudio l' = None"
  by (auto simp add: cleanup_def split: option.splits)

lemma audio_start_fields:
  "audio_start pf l = (ok, l', t) \<Longrightarrow>
     on_event l' = on_event l \<and> listener_device_id l' = listener_device_id l
     \<and> device_index l' = device_index l"
  by (auto simp add: audio_start_def Let_def
      split: if_splits sum.splits option.splits prod.splits dest!: cleanup_fields)

lemma map_of_append_new:
  "k \<notin> set (map fst kvs) \<Longrightarrow> map_of (kvs @ [(k, v)]) k = Some v"
  by (induction kvs) auto

lemma map_of_append_other:
  "k' \<noteq> k \<Longrightarrow> map_of (kvs @ [(k, v)]) k' = map_of kvs k'"
  by (induction kvs) auto

lemma map_of_absent: "k \<notin> set (map fst kvs) \<Longrightarrow> map_of kvs k = None"
  by (simp add: map_of_eq_None_iff)

lemma add_camera_spec:
  assumes "add_camera pf cid src ve = (ok, ve')"
  shows "(cid \<in> set (map fst (cameras ve)) \<longrightarrow> \<not> ok \<and> ve' = ve)
       \<and> (cid \<notin> set (map fst (cameras ve)) \<longrightarrow>
            (\<exists>h'. camera_start pf (camera_handler_init cid src (detection_callback ve)) = (ok, h')
               \<and> on_detection h' = detection_callback ve \<and> source h' = src \<and> camera_id h' = cid
               \<and> (ok \<longrightarrow> cameras ve' = cameras ve @ [(cid, h')]
                          \<and> map_of (cameras ve') cid = Some h')
               \<and> (\<not> ok \<longrightarrow> ve' = ve \<and> map_of (cameras ve') cid = None)))
       \<and> (\<forall>k. k \<noteq> cid \<longrightarrow> map_of (cameras ve') k = map_of (cameras ve) k)
       \<and> detection_callback ve' = detection_callback ve"
proof (cases "cid \<in> set (map fst (cameras ve))")
  case True
  with assms show ?thesis by (simp add: add_camera_def)
next
  case False
  obtain st h' where cs: "camera_start pf (camera_handler_init cid src (detection_callback ve)) = (st, h')"
    by (cases "camera_start pf (camera_handler_init cid src (detection_callback ve))") auto
  from camera_start_fields[OF cs]
  have f: "on_detection h' = detection_callback ve" "source h' = src" "camera_id h' = cid"
    by (simp_all add: camera_handler_init_def)
  show ?thesis
  proof (cases st)
    case True
    with assms False cs have r: "ok" "ve' = ve\<lparr>cameras := cameras ve @ [(cid, h')]\<rparr>"
      by (simp_all add: add_camera_def Let_def)
    with False cs f True show ?thesis
      by (simp del: map_of_append add: map_of_append_new map_of_append_other)
  next
    case st: False
    with assms False cs have r: "\<not> ok" "ve' = ve"
      by (simp_all add: add_camera_def Let_def)
    with False cs f st show ?thesis
      by (simp add: map_of_absent)
  qed
qed

lemma add_listener_spec:
  assumes "add_listener cfg pf did idx ae = (ok, ae', t)"
  shows "(did \<in> set (map fst (listeners ae)) \<longrightarrow> \<not> ok \<and> ae' = ae \<and> t = [])
       \<and> (did \<notin> set (map fst (listeners ae)) \<longrightarrow>
            (\<exists>l'. audio_start pf (audio_listener_init cfg did idx (event_callback ae)) = (ok, l', t)
               \<and> on_event l' = event_callback ae \<and> listener_device_id l' = did
               \<and> device_index l' = idx
               \<and> (ok \<longrightarrow> listeners ae' = listeners ae @ [(did, l')]
                          \<and> map_of (listeners ae') did = Some l')
               \<and> (\<not> ok \<longrightarrow> ae' = ae \<and> map_of (listeners ae') did = None)))
       \<and> (\<forall>k. k \<noteq> did \<longrightarrow> map_of (listeners ae') k = map_of (listeners ae) k)
       \<and> event_callback ae' = event_callback ae"
proof (cases "did \<in> set (map fst (listeners ae))")
  case True
  with assms show ?thesis by (simp add: add_listener_def)
next
  case False
  obtain st l' t' where cs:
    "audio_start pf (audio_listener_init cfg did idx (event_callback ae)) = (st, l', t')"
    by (cases "audio_start pf (audio_listener_init cfg did idx (event_callback ae))") auto
  from audio_start_fields[OF cs]
  have f: "on_event l' = event_callback ae" "listener_device_id l' = did" "device_index l' = idx"
    by (simp_all add: audio_listener_init_def)
  show ?thesis
  proof (cases st)
    case True
    with assms False cs have r: "ok" "ae' = ae\<lparr>listeners := listeners ae @ [(did, l')]\<rparr>" "t = t'"
      by (simp_all add: add_listener_def Let_def)
    with False cs f True show ?thesis
      by (simp del: map_of_append add: map_of_append_new map_of_append_other)
  next
    case st: False
    with assms False cs have r: "\<not> ok" "ae' = ae" "t = t'"
      by (simp_all add: add_listener_def Let_def)
    with False cs f st show ?thesis
      by (simp add: map_of_absent)
  qed
qed

text \<open>
  C5. For both registries, adding under an identifier already present returns false and
  leaves the registry as it was. Otherwise a handler is built with the given identifier and
  source (or device index) and the callback installed at that moment, and started; the
  result of the add is the result of the start; on success the started handler is
  appended under the identifier, on failure the registry is as it was and holds no entry
  for the identifier. Entries under other identifiers and the installed callback never
  change.
\<close>
theorem add_registers_iff_started:
  assumes "add_camera pf cid src ve = (ok, ve')"
    and "add_listener cfg apf did idx ae = (aok, ae', t)"
  shows "(cid \<in> set (map fst (cameras ve)) \<longrightarrow> \<not> ok \<and> ve' = ve)
       \<and> (cid \<notin> set (map fst (cameras ve)) \<longrightarrow>
            (\<exists>h'. camera_start pf (camera_handler_init cid src (detection_callback ve)) = (ok, h')
               \<and> on_detection h' = detection_callback ve \<and> source h' = src \<and> camera_id h' = cid
               \<and> (ok \<longrightarrow> cameras ve' = cameras ve @ [(cid, h')]
                          \<and> map_of (cameras ve') cid = Some h')
               \<and> (\<not> ok \<longrightarrow> ve' = ve \<and> map_of (cameras ve') cid = None)))
       \<and> (\<forall>k. k \<noteq> cid \<longrightarrow> map_of (cameras ve') k = map_of (cameras ve) k)
       \<and> detection_callback ve' = detection_callback ve
       \<and> (did \<in> set (map fst (listeners ae)) \<longrightarrow> \<not> aok \<and> ae' = ae \<and> t = [])
       \<and> (did \<notin> set (map fst (listeners ae)) \<longrightarrow>
            (\<exists>l'. audio_start apf (audio_listener_init cfg did idx (event_callback ae)) = (aok, l', t)
               \<and> on_event l' = event_callback ae \<and> listener_device_id l' = did
               \<and> device_index l' = idx
               \<and> (aok \<longrightarrow> listeners ae' = listeners ae @ [(did, l')]
                          \<and> map_of (listeners ae') did = Some l')
               \<and> (\<not> aok \<longrightarrow> ae' = ae \<and> map_of (listeners ae') did = None)))
       \<and> (\<forall>k. k \<noteq> did \<longrightarrow> map_of (listeners ae') k = map_of (listeners ae) k)
       \<and> event_callback ae' = event_callback ae"
  using add_camera_spec[OF assms(1)] add_listener_spec[OF assms(2)] by simp

lemmas reg_defs = one_camera_def one_listener_def add_camera_def add_listener_def
  camera_start_def audio_start_def cleanup_def camera_handler_init_def audio_listener_init_def
  set_detection_callback_def set_event_callback_def vision_engine_init_def
  audio_engine_init_def demo_vision_platform_def demo_audio_platform_def
  default_settings_def stop_stream_def close_stream_def terminate_def
  and_then_def except_pass_def Let_def

text \<open>
  A registry holding camera \<open>cam-1\<close>: adding \<open>cam-1\<close> again with another source
  fails and changes nothing, and adding \<open>cam-2\<close> on a source that does not open fails
  and leaves no entry. The same for listeners, with a stream that cannot be opened.
\<close>
theorem add_registers_iff_started_witness:
  "(\<exists>h. cameras one_camera = [(''cam-1'', h)] \<and> source h = Path ''rtsp://cam-1''
        \<and> camera_running h)
   \<and> add_camera (demo_vision_platform []) ''cam-1'' (Path ''file.mp4'') one_camera
        = (False, one_camera)
   \<and> add_camera closed_platform ''cam-2'' (Path ''file.mp4'') one_camera = (False, one_camera)
   \<and> map_of (cameras one_camera) ''cam-2'' = None
   \<and> (\<exists>l. listeners one_listener = [(''mic-1'', l)] \<and> listener_running l)
   \<and> fst (add_listener default_settings demo_audio_platform ''mic-1'' (Some 3) one_listener)
        = False
   \<and> fst (snd (add_listener default_settings demo_audio_platform ''mic-1'' (Some 3) one_listener))
        = one_listener
   \<and> fst (add_listener default_settings busy_audio_platform ''mic-2'' (Some 3) one_listener)
        = False
   \<and> fst (snd (add_listener default_settings busy_audio_platform ''mic-2'' (Some 3) one_listener))
        = one_listener"
proof -
  have k1: "''cam-1'' \<in> set (map fst (cameras one_camera))"
    and k2: "''cam-2'' \<notin> set (map fst (cameras one_camera))"
    and c0: "\<exists>h. cameras one_camera = [(''cam-1'', h)] \<and> source h = Path ''rtsp://cam-1''
        \<and> camera_running h"
    by (simp_all add: reg_defs)
  have k3: "''mic-1'' \<in> set (map fst (listeners one_listener))"
    and k4: "''mic-2'' \<notin> set (map fst (listeners one_listener))"
    and l0: "\<exists>l. listeners one_listener = [(''mic-1'', l)] \<and> listener_running l"
    by (simp_all add: reg_defs)
  obtain ok1 ve1 where a1:
    "add_camera (demo_vision_platform []) ''cam-1'' (Path ''file.mp4'') one_camera = (ok1, ve1)"
    by (cases "add_camera (demo_vision_platform []) ''cam-1'' (Path ''file.mp4'') one_camera") auto
  obtain ok2 ve2 where a2:
    "add_camera closed_platform ''cam-2'' (Path ''file.mp4'') one_camera = (ok2, ve2)"
    by (cases "add_camera closed_platform ''cam-2'' (Path ''file.mp4'') one_camera") auto
  obtain ok3 ae3 t3 where a3:
    "add_listener default_settings demo_audio_platform ''mic-1'' (Some 3) one_listener
       = (ok3, ae3, t3)"
    by (metis prod_cases3)
  obtain ok4 ae4 t4 where a4:
    "add_listener default_settings busy_audio_platform ''mic-2'' (Some 3) one_listener
       = (ok4, ae4, t4)"
    by (metis prod_cases3)
  have st2: "\<not> fst (camera_start closed_platform
        (camera_handler_init ''cam-2'' (Path ''file.mp4'') (detection_callback one_camera)))"
    by (simp add: reg_defs closed_platform_def)
  have st4: "\<not> fst (audio_start busy_audio_platform
        (audio_listener_init default_settings ''mic-2'' (Some 3) (event_callback one_listener)))"
    by (simp add: reg_defs busy_audio_platform_def)
  from add_registers_iff_started[OF a1 a3] k1 k3
  have r1: "\<not> ok1" "ve1 = one_camera" "\<not> ok3" "ae3 = one_listener" by simp_all
  from add_registers_iff_started[OF a2 a4] k2 k4 st2 st4
  have r2: "\<not> ok2" "ve2 = one_camera" "\<not> ok4" "ae4 = one_listener"
    by auto
  have "map_of (cameras one_camera) ''cam-2'' = None"
    using k2 by (simp add: map_of_absent)
  with c0 l0 a1 a2 a3 a4 r1 r2 show ?thesis by simp
qed

section \<open>Stopping a handler\<close>

lemma cleanup_idem:
  "cleanup l = (l', t) \<Longrightarrow> cleanup l' = (l', [])"
  by (auto simp add: cleanup_def split: option.splits)

lemma cleanup_trace:
  "cleanup l = (l', t) \<Longrightarrow>
     (\<forall>s. listener_stream l = Some s \<longrightarrow> StreamStop \<in> set t)
     \<and> (\<forall>p. listener_pyaudio l = Some p \<longrightarrow> PyAudioTerminate \<in> set t)"
  by (auto simp add: cleanup_def except_pass_def and_then_def stop_stream_def close_stream_def
      terminate_def split: option.splits)

lemma audio_stop_spec:
  "\<exists>l' t. audio_stop l = (Inr (), l', t) \<and> audio_stop l' = (Inr (), l', [])
     \<and> \<not> listener_running l' \<and> listener_stream l' = None \<and> listener_pyaudio l' = None
     \<and> listener_thread l' = None
     \<and> (\<forall>th. listener_thread l = Some th \<longrightarrow> ThreadJoin th \<in> set t)
     \<and> (\<forall>s. listener_stream l = Some s \<longrightarrow> StreamStop \<in> set t)
     \<and> (\<forall>p. listener_pyaudio l = Some p \<longrightarrow> PyAudioTerminate \<in> set t)"
proof -
  define l2 where "l2 = (case listener_thread l of
      None \<Rightarrow> l\<lparr>listener_running := False\<rparr>
    | Some th \<Rightarrow> l\<lparr>listener_running := False, listener_thread := None\<rparr>)"
  define t1 where "t1 = (case listener_thread l of None \<Rightarrow> [] | Some th \<Rightarrow> [ThreadJoin th])"
  have l2: "\<not> listener_running l2" "listener_thread l2 = None"
    "listener_stream l2 = listener_stream l" "listener_pyaudio l2 = listener_pyaudio l"
    by (simp_all add: l2_def split: option.splits)
  obtain l3 t2 where cl: "cleanup l2 = (l3, t2)" by (cases "cleanup l2") auto
  have s1: "audio_stop l = (Inr (), l3, t1 @ t2)"
    using cl by (cases "listener_thread l") (simp_all add: audio_stop_def Let_def l2_def t1_def)
  from cleanup_fields[OF cl] l2
  have f: "\<not> listener_running l3" "listener_thread l3 = None" "listener_stream l3 = None"
    "listener_pyaudio l3 = None" by simp_all
  have l3: "l3\<lparr>listener_running := False\<rparr> = l3" using f by simp
  have s2: "audio_stop l3 = (Inr (), l3, [])"
    using f cleanup_idem[OF cl] by (simp add: audio_stop_def Let_def l3)
  from cleanup_trace[OF cl] l2
  have tr: "\<forall>s. listener_stream l = Some s \<longrightarrow> StreamStop \<in> set t2"
    "\<forall>p. listener_pyaudio l = Some p \<longrightarrow> PyAudioTerminate \<in> set t2" by simp_all
  have tj: "\<forall>th. listener_thread l = Some th \<longrightarrow> ThreadJoin th \<in> set t1"
    by (simp add: t1_def)
  show ?thesis
    apply (rule exI[of _ l3], rule exI[of _ "t1 @ t2"])
    using s1 s2 f tr tj by auto
qed

lemma camera_stop_spec:
  assumes "camera_stop h = (Inr (), h', t)"
  shows "camera_stop h' = (Inr (), h', []) \<and> \<not> camera_running h' \<and> capture h' = None
     \<and> camera_thread h' = None
     \<and> (\<forall>th. camera_thread h = Some th \<longrightarrow> ThreadJoin th \<in> set t)
     \<and> (\<forall>c. capture h = Some c \<longrightarrow> CaptureRelease \<in> set t)"
  using assms
  by (auto simp add: camera_stop_def release_def Let_def split: option.splits sum.splits prod.splits)

text \<open>
  C7. When \<^verbatim>\<open>CameraHandler.stop\<close> returns, the handler is not running, holds no capture
  and no thread, the thread it held was joined and the capture it held was released; a
  second stop then returns the same handler and makes no call at all.
  \<^verbatim>\<open>AudioListener.stop\<close> always returns, with the same end state and the same silent
  second stop. On a handler that was never started either stop returns the handler
  unchanged and makes no call.
\<close>
theorem stop_idempotent:
  "(camera_stop h = (Inr (), h', t) \<longrightarrow>
      camera_stop h' = (Inr (), h', []) \<and> \<not> camera_running h' \<and> capture h' = None
      \<and> camera_thread h' = None
      \<and> (\<forall>th. camera_thread h = Some th \<longrightarrow> ThreadJoin th \<in> set t)
      \<and> (\<forall>c. capture h = Some c \<longrightarrow> CaptureRelease \<in> set t))
   \<and> (\<exists>l' ta. audio_stop l = (Inr (), l', ta) \<and> audio_stop l' = (Inr (), l', [])
      \<and> \<not> listener_running l' \<and> listener_stream l' = None \<and> listener_pyaudio l' = None
      \<and> listener_thread l' = None
      \<and> (\<forall>th. listener_thread l = Some th \<longrightarrow> ThreadJoin th \<in> set ta)
      \<and> (\<forall>s. listener_stream l = Some s \<longrightarrow> StreamStop \<in> set ta)
      \<and> (\<forall>p. listener_pyaudio l = Some p \<longrightarrow> PyAudioTerminate \<in> set ta))
   \<and> camera_stop (camera_handler_init cid src cb)
        = (Inr (), camera_handler_init cid src cb, [])
   \<and> audio_stop (audio_listener_init cfg did idx acb)
        = (Inr (), audio_listener_init cfg did idx acb, [])"
proof -
  have A: "camera_stop h = (Inr (), h', t) \<longrightarrow>
      camera_stop h' = (Inr (), h', []) \<and> \<not> camera_running h' \<and> capture h' = None
      \<and> camera_thread h' = None
      \<and> (\<forall>th. camera_thread h = Some th \<longrightarrow> ThreadJoin th \<in> set t)
      \<and> (\<forall>c. capture h = Some c \<longrightarrow> CaptureRelease \<in> set t)"
    using camera_stop_spec[of h h' t] by blast
  have B: "\<exists>l' ta. audio_stop l = (Inr (), l', ta) \<and> audio_stop l' = (Inr (), l', [])
      \<and> \<not> listener_running l' \<and> listener_stream l' = None \<and> listener_pyaudio l' = None
      \<and> listener_thread l' = None
      \<and> (\<forall>th. listener_thread l = Some th \<longrightarrow> ThreadJoin th \<in> set ta)
      \<and> (\<forall>s. listener_stream l = Some s \<longrightarrow> StreamStop \<in> set ta)
      \<and> (\<forall>p. listener_pyaudio l = Some p \<longrightarrow> PyAudioTerminate \<in> set ta)"
    by (rule audio_stop_spec)
  have C: "camera_stop (camera_handler_init cid src cb)
        = (Inr (), camera_handler_init cid src cb, [])"
    by (simp add: camera_stop_def camera_handler_init_def)
  have D: "audio_stop (audio_listener_init cfg did idx acb)
        = (Inr (), audio_listener_init cfg did idx acb, [])"
    by (simp add: audio_stop_def audio_listener_init_def cleanup_def)
  from A B C D show ?thesis by (intro conjI)
qed

text \<open>A running camera and a running listener, stopped twice.\<close>
theorem stop_idempotent_witness:
  "camera_stop demo_camera
     = (Inr (), demo_camera\<lparr>capture := None, camera_running := False, camera_thread := None\<rparr>,
        [ThreadJoin (Thread ''camera-cam-1''), CaptureRelease])
   \<and> camera_stop (demo_camera\<lparr>capture := None, camera_running := False, camera_thread := None\<rparr>)
     = (Inr (), demo_camera\<lparr>capture := None, camera_running := False, camera_thread := None\<rparr>, [])
   \<and> (\<exists>l' ta. audio_stop demo_listener = (Inr (), l', ta) \<and> audio_stop l' = (Inr (), l', [])
         \<and> StreamStop \<in> set ta)"
proof -
  let ?h' = "demo_camera\<lparr>capture := None, camera_running := False, camera_thread := None\<rparr>"
  have s: "camera_stop demo_camera
     = (Inr (), ?h', [ThreadJoin (Thread ''camera-cam-1''), CaptureRelease])"
    by (simp add: camera_stop_def release_def demo_camera_def camera_start_def
        camera_handler_init_def demo_vision_platform_def Let_def)
  have st: "\<exists>s. listener_stream demo_listener = Some s"
    by (simp add: demo_listener_def)
  note T = stop_idempotent[of demo_camera ?h' "[ThreadJoin (Thread ''camera-cam-1''), CaptureRelease]"
      demo_listener]
  from T s have "camera_stop ?h' = (Inr (), ?h', [])" by blast
  moreover from T st
  have "\<exists>l' ta. audio_stop demo_listener = (Inr (), l', ta) \<and> audio_stop l' = (Inr (), l', [])
         \<and> StreamStop \<in> set ta"
    by blast
  ultimately show ?thesis using s by simp
qed

lemmas stop_defs = two_cameras_def stuck_camera_def second_camera_def stuck_platform_def
  vision_stop_all_def audio_stop_all_def camera_stop_def audio_stop_def release_def
  remove_camera_def set_key_def del_key_def

text \<open>
  C9 on the code. A registry with cameras \<open>cam-1\<close> and \<open>cam-2\<close>, the capture of the
  first raising on \<^verbatim>\<open>release()\<close>: \<^verbatim>\<open>CameraHandler.stop\<close> lets the exception out and keeps
  the capture, \<^verbatim>\<open>VisionEngine.stop_all\<close> ends with that exception, the second camera
  still running and both cameras still registered, and \<^verbatim>\<open>remove_camera\<close> raises as well.
  The audio side swallows the same failures: with a stream and a PyAudio handle whose
  teardown raises, \<^verbatim>\<open>AudioEngine.stop_all\<close> returns and clears the registry.
\<close>
theorem camera_stop_release_error_propagates:
  "cameras two_cameras = [(''cam-1'', stuck_camera), (''cam-2'', second_camera)]
   \<and> capture stuck_camera
        = Some \<lparr>is_opened = True, release_outcome = Some (Exception ''cv2.error'')\<rparr>
   \<and> camera_stop stuck_camera
        = (Inl (Exception ''cv2.error''),
           stuck_camera\<lparr>camera_running := False, camera_thread := None\<rparr>,
           [ThreadJoin (Thread ''camera-cam-1''), CaptureRelease])
   \<and> vision_stop_all two_cameras
        = (Inl (Exception ''cv2.error''),
           two_cameras\<lparr>cameras :=
             [(''cam-1'', stuck_camera\<lparr>camera_running := False, camera_thread := None\<rparr>),
              (''cam-2'', second_camera)]\<rparr>,
           [ThreadJoin (Thread ''camera-cam-1''), CaptureRelease])
   \<and> camera_running second_camera
   \<and> fst (remove_camera ''cam-1'' two_cameras) = Inl (Exception ''cv2.error'')
   \<and> map (\<lambda>kv. map_option stop_stream_outcome (listener_stream (snd kv)))
          (listeners one_listener) = [Some (Some (Exception ''OSError''))]
   \<and> map (\<lambda>kv. map_option terminate_outcome (listener_pyaudio (snd kv)))
          (listeners one_listener) = [Some (Some (Exception ''PortAudio''))]
   \<and> audio_stop_all one_listener
        = (Inr (), one_listener\<lparr>listeners := []\<rparr>,
           [ThreadJoin (Thread ''audio-mic-1''), StreamStop, PyAudioTerminate])"
  by (simp add: stop_defs reg_defs)

section \<open>Dispatch from a capture thread\<close>

lemmas main_defs = started_engines_def lifespan_startup_def door_settings_def default_camera_def
  wired_listener_def main_world_def run_capture_thread_def run_listen_thread_def on_thread_def
  capture_loop_def get_model_def sync_visual_callback_def sync_audio_callback_def
  create_task_def wide_detection_def inner_detection_def empty_detection_def

text \<open>
  C1 on the code. After startup the default camera is wired to \<^verbatim>\<open>sync_visual_callback\<close>
  and runs on its own thread. Its capture loop processes a frame with three qualifying
  boxes and builds three detections, but the tasks scheduled on the event loop stay empty:
  on the capture thread \<^verbatim>\<open>asyncio.create_task\<close> raises \<^verbatim>\<open>RuntimeError\<close>, which
  \<^verbatim>\<open>_process_frame\<close> logs and swallows. The same callback called on the loop's thread
  schedules the task. The audio side behaves alike: three events are built, none is
  scheduled.
\<close>
theorem capture_thread_schedules_nothing:
  "cameras (fst started_engines) = [(''default'', default_camera)]
   \<and> on_detection default_camera = Some sync_visual_callback
   \<and> camera_thread default_camera = Some (Thread ''camera-default'')
   \<and> (\<exists>h'. run_capture_thread (demo_vision_platform demo_boxes) door_settings demo_codec
               [Some (demo_frame 1), Some (demo_frame 2)] default_camera main_world
        = Some (Inr (), h', [demo_frame 2],
                [wide_detection, inner_detection, empty_detection], main_world))
   \<and> scheduled main_world = []
   \<and> sync_visual_callback ''default'' wide_detection
        (on_thread (Thread ''camera-default'') main_world)
        = (Inl (RuntimeError ''no running event loop''),
           on_thread (Thread ''camera-default'') main_world)
   \<and> sync_visual_callback ''default'' wide_detection main_world
        = (Inr (), main_world\<lparr>scheduled := [HandleVisualDetection ''default'' wide_detection]\<rparr>)
   \<and> on_event wired_listener = Some sync_audio_callback
   \<and> listener_thread wired_listener = Some (Thread ''audio-mic-1'')
   \<and> (\<exists>evs l'. run_listen_thread demo_inputs wired_listener main_world
        = Some (evs, l', main_world) \<and> map timestamp evs = [10000, 12000, 14000])"
  by (simp add: main_defs reg_defs vis_defs demo_inputs_def handle_detection_def)


end
